theory Spec2Isabelle
  imports Main
begin

section \<open>File watcher: the completeness gate of \<open>audio_fetcher.py\<close>\<close>

text \<open>
  Paths and file names are strings. Log lines are kept by level, with the fixed part of
  the message of the source (the interpolated file name and sizes are left out).
\<close>

type_synonym path = string

datatype log_entry = LogInfo string | LogWarning string | LogError string

text \<open>
  What one look at the file system returns: whether the completion marker
  (\<open>filepath.with_suffix('.complete')\<close>) exists, and the size \<open>filepath.stat().st_size\<close>,
  \<open>None\<close> when \<open>stat\<close> raises \<open>OSError\<close>.
\<close>

record fs_obs =
  marker_exists :: bool
  st_size :: "nat option"

text \<open>
  The file system as \<open>is_file_ready\<close> sees it during one call: whether the file exists
  on entry, the observation made on entry, and the observation made by the poll of
  iteration \<open>k\<close> of the loop (\<open>k = 0\<close> is the first one, taken after the first
  \<open>time.sleep(1)\<close>). The two-second sleep for files under 1 KiB only delays the first
  poll; it reads nothing, so it leaves no trace in the model.
\<close>

record file_env =
  file_exists :: bool
  on_entry :: fs_obs
  polls :: "nat \<Rightarrow> fs_obs"

text \<open>
  The \<open>while total_wait < max_wait\<close> loop of \<open>AudioFetcher.is_file_ready\<close>. The counters
  are never negative, so they are naturals; a negative \<open>stability_time\<close> or \<open>max_wait\<close>
  behaves as 0 does in both comparisons.
\<close>

function ready_loop ::
  "(nat \<Rightarrow> fs_obs) \<Rightarrow> nat \<Rightarrow> nat \<Rightarrow> nat \<Rightarrow> nat \<Rightarrow> nat \<Rightarrow> log_entry list \<Rightarrow> bool \<times> log_entry list"
where
  "ready_loop ps stability_time max_wait total_wait last_size stable_count logs =
     (if total_wait < max_wait then
        (let ob = ps total_wait; total_wait' = total_wait + 1 in
         if marker_exists ob then
           (True, logs @ [LogInfo ''Completion marker appeared''])
         else
           (case st_size ob of
              None \<Rightarrow> (False, logs @ [LogWarning ''File became inaccessible''])
            | Some current_size \<Rightarrow>
                if current_size = last_size then
                  (if stable_count + 1 \<ge> stability_time then
                     (True, logs @ [LogInfo ''File is stable''])
                   else
                     ready_loop ps stability_time max_wait total_wait' last_size
                       (stable_count + 1) logs)
                else
                  ready_loop ps stability_time max_wait total_wait' current_size 0
                    (logs @ [LogInfo ''File size changed''])))
      else (False, logs @ [LogWarning ''File did not stabilize within max_wait'']))"
  by pat_completeness auto
termination
  by (relation "measure (\<lambda>(ps, st, mw, tw, ls, sc, lg). mw - tw)") auto

declare ready_loop.simps [simp del]

definition is_file_ready :: "file_env \<Rightarrow> nat \<Rightarrow> nat \<Rightarrow> bool \<times> log_entry list" where
  "is_file_ready env stability_time max_wait =
     (if \<not> file_exists env then (False, [])
      else if marker_exists (on_entry env) then
        (True, [LogInfo ''Checking file readiness'', LogInfo ''Found completion marker''])
      else
        (case st_size (on_entry env) of
           None \<Rightarrow> (False, [LogInfo ''Checking file readiness'',
                             LogError ''Error checking file readiness''])
         | Some initial_size \<Rightarrow>
             ready_loop (polls env) stability_time max_wait 0 initial_size 0
               ([LogInfo ''Checking file readiness''] @
                (if initial_size < 1024 then [LogInfo ''File is very small, waiting'']
                 else []))))"

text \<open>
  The sizes read during a call, in order: index 0 is the size read on entry, index
  \<open>i + 1\<close> the size read by poll \<open>i\<close>. Consecutive indices are one second apart (after
  the first, which may be three).
\<close>

definition size_at :: "file_env \<Rightarrow> nat \<Rightarrow> nat option" where
  "size_at env i = (if i = 0 then st_size (on_entry env) else st_size (polls env (i - 1)))"

text \<open>A marker was seen on entry or by one of the first \<open>n\<close> polls.\<close>

definition marker_seen :: "file_env \<Rightarrow> nat \<Rightarrow> bool" where
  "marker_seen env n = (marker_exists (on_entry env) \<or> (\<exists>k<n. marker_exists (polls env k)))"

text \<open>
  The size stayed the same over \<open>w\<close> consecutive one-second polls ending within the
  first \<open>n\<close> polls: \<open>w + 1\<close> consecutive readings are equal.
\<close>

definition size_stable :: "file_env \<Rightarrow> nat \<Rightarrow> nat \<Rightarrow> bool" where
  "size_stable env w n =
     (\<exists>k\<le>n. \<exists>s. k + w \<le> n \<and> (\<forall>j\<le>w. size_at env (k + j) = Some s))"

subsection \<open>The fetcher\<close>

text \<open>
  What \<open>recording_processor.process_recording\<close> gives back to the fetcher: a result whose
  \<open>success\<close> is true, one whose \<open>success\<close> is false, or an exception.
\<close>

datatype proc_outcome = ProcSuccess | ProcFailure | ProcRaised

text \<open>
  The fetcher's state: the in-memory set \<open>processed_files\<close>, the set stored in
  \<open>processed_files.json\<close>, whether the recording processor was initialised, and (a ghost
  field) the calls of \<open>process_recording\<close> made so far, oldest first.
\<close>

record fetcher =
  processed_files :: "path set"
  persisted :: "path set"
  has_processor :: bool
  invocations :: "path list"

definition process_audio_file ::
  "fetcher \<Rightarrow> file_env \<Rightarrow> proc_outcome \<Rightarrow> path \<Rightarrow> bool \<times> fetcher" where
  "process_audio_file s env outcome source_path =
     (if \<not> fst (is_file_ready env 5 120) then (False, s)
      else if \<not> has_processor s then (False, s)
      else
        (let s1 = s\<lparr>invocations := invocations s @ [source_path]\<rparr> in
         case outcome of
           ProcSuccess \<Rightarrow>
             (True, s1\<lparr>processed_files := insert source_path (processed_files s1)\<rparr>)
         | ProcFailure \<Rightarrow> (False, s1)
         | ProcRaised \<Rightarrow> (False, s1)))"

text \<open>
  One entry of the monitor directory as \<open>find_new_audio_files\<close> reads it: the path
  (\<open>str(file_path)\<close>, the id of the file), \<open>is_file()\<close>, and the lower-cased suffix.
\<close>

record dir_entry =
  entry_path :: path
  entry_is_file :: bool
  entry_suffix :: string

definition audio_formats :: "string set" where
  "audio_formats = {''.wav'', ''.mp3'', ''.gsm'', ''.ulaw'', ''.alaw'', ''.sln'', ''.g722'', ''.au''}"

definition is_audio_file :: "dir_entry \<Rightarrow> bool" where
  "is_audio_file e = (entry_suffix e \<in> audio_formats)"

definition find_new_audio_files :: "fetcher \<Rightarrow> dir_entry list \<Rightarrow> path list" where
  "find_new_audio_files s entries =
     map entry_path
       (filter (\<lambda>e. entry_is_file e \<and> is_audio_file e \<and> entry_path e \<notin> processed_files s)
          entries)"

text \<open>
  What one scan meets: the directory entries in the order \<open>iterdir\<close> yields them, the
  file system each file's readiness check will see, what \<open>process_recording\<close> will
  answer for each file, and whether writing \<open>processed_files.json\<close> succeeds (a failed
  write is logged and swallowed by \<open>save_processed_files\<close>).
\<close>

record scan =
  listing :: "dir_entry list"
  envs :: "path \<Rightarrow> file_env"
  outcomes :: "path \<Rightarrow> proc_outcome"
  write_ok :: bool

definition save_processed_files :: "fetcher \<Rightarrow> bool \<Rightarrow> fetcher" where
  "save_processed_files s ok = (if ok then s\<lparr>persisted := processed_files s\<rparr> else s)"

text \<open>The \<open>for file_path in new_files\<close> loop of \<open>fetch_files_once\<close>.\<close>

fun process_new_files :: "fetcher \<Rightarrow> scan \<Rightarrow> path list \<Rightarrow> nat \<times> fetcher" where
  "process_new_files s sc [] = (0, s)"
| "process_new_files s sc (p # ps) =
     (case process_audio_file s (envs sc p) (outcomes sc p) p of
        (ok, s1) \<Rightarrow>
          (case process_new_files s1 sc ps of
             (n, s2) \<Rightarrow> ((if ok then 1 else 0) + n, s2)))"

definition fetch_files_once :: "fetcher \<Rightarrow> scan \<Rightarrow> nat \<times> fetcher" where
  "fetch_files_once s sc =
     (let new_files = find_new_audio_files s (listing sc) in
      if new_files = [] then (0, s)
      else
        (case process_new_files s sc new_files of
           (processed_count, s1) \<Rightarrow>
             (processed_count, save_processed_files s1 (write_ok sc))))"

text \<open>
  \<open>run_continuous\<close> scans forever, one \<open>fetch_files_once\<close> per interval; a run is
  observed through the scans it has made so far.
\<close>

fun run_continuous :: "fetcher \<Rightarrow> scan list \<Rightarrow> fetcher" where
  "run_continuous s [] = s"
| "run_continuous s (sc # scs) = run_continuous (snd (fetch_files_once s sc)) scs"

text \<open>
  \<open>AudioFetcher.__init__\<close>: the processed set is loaded from the log file; when the file
  cannot be read (\<open>load_ok\<close> is false) the set starts empty.
\<close>

definition AudioFetcher_init :: "path set \<Rightarrow> bool \<Rightarrow> bool \<Rightarrow> fetcher" where
  "AudioFetcher_init on_disk load_ok processor_ok =
     \<lparr>processed_files = (if load_ok then on_disk else {}), persisted = on_disk,
      has_processor = processor_ok, invocations = []\<rparr>"

text \<open>
  Two runs of the gate. A readable file of 2048 bytes that never changes and has no
  marker is processed, and the theorem gives the stable window. A file that grows by one
  byte at every poll is not processed.
\<close>

definition steady_env :: file_env where
  "steady_env = \<lparr>file_exists = True,
     on_entry = \<lparr>marker_exists = False, st_size = Some 2048\<rparr>,
     polls = (\<lambda>k. \<lparr>marker_exists = False, st_size = Some 2048\<rparr>)\<rparr>"

definition growing_env :: file_env where
  "growing_env = \<lparr>file_exists = True,
     on_entry = \<lparr>marker_exists = False, st_size = Some 2048\<rparr>,
     polls = (\<lambda>k. \<lparr>marker_exists = False, st_size = Some (2049 + k)\<rparr>)\<rparr>"

definition idle_fetcher :: fetcher where
  "idle_fetcher = \<lparr>processed_files = {}, persisted = {}, has_processor = True,
     invocations = []\<rparr>"


text \<open>
  A scan that finds \<open>/monitor/a001.wav\<close> with its completion marker present, and a
  recording processor that fails on it.
\<close>

definition marked_env :: file_env where
  "marked_env = \<lparr>file_exists = True,
     on_entry = \<lparr>marker_exists = True, st_size = Some 2048\<rparr>,
     polls = (\<lambda>k. \<lparr>marker_exists = True, st_size = Some 2048\<rparr>)\<rparr>"

definition failing_scan :: scan where
  "failing_scan = \<lparr>listing = [\<lparr>entry_path = ''/monitor/a001.wav'', entry_is_file = True,
       entry_suffix = ''.wav''\<rparr>],
     envs = (\<lambda>p. marked_env), outcomes = (\<lambda>p. ProcFailure), write_ok = True\<rparr>"

definition succeeding_scan :: scan where
  "succeeding_scan = failing_scan\<lparr>outcomes := (\<lambda>p. ProcSuccess)\<rparr>"

section \<open>Text\<close>

text \<open>
  A Python \<open>str\<close> is a sequence of Unicode code points; \<open>len\<close>, slicing and \<open>split\<close>
  count code points, \<open>encode('utf-8')\<close> counts bytes. Natural-language text is therefore
  a list of code points. Identifiers (language codes, service names, file names) are
  plain strings. Code points are taken to be encodable (no lone surrogate).
\<close>

type_synonym codepoint = nat
type_synonym pystr = "codepoint list"

definition str :: "string \<Rightarrow> pystr" where
  "str s = map (\<lambda>c. of_char c) s"

text \<open>The number of bytes of \<open>t.encode('utf-8')\<close>.\<close>

definition utf8_len :: "codepoint \<Rightarrow> nat" where
  "utf8_len c = (if c < 128 then 1 else if c < 2048 then 2 else if c < 65536 then 3 else 4)"

definition encode_len :: "pystr \<Rightarrow> nat" where
  "encode_len t = sum_list (map utf8_len t)"

text \<open>The code points for which \<open>str.isspace\<close> holds; \<open>strip()\<close> removes them at both ends.\<close>

definition isspace :: "codepoint \<Rightarrow> bool" where
  "isspace c = ((9 \<le> c \<and> c \<le> 13) \<or> (28 \<le> c \<and> c \<le> 32) \<or> c = 133 \<or> c = 160 \<or>
     c = 5760 \<or> (8192 \<le> c \<and> c \<le> 8202) \<or> c = 8232 \<or> c = 8233 \<or> c = 8239 \<or>
     c = 8287 \<or> c = 12288)"

definition strip :: "pystr \<Rightarrow> pystr" where
  "strip t = rev (dropWhile isspace (rev (dropWhile isspace t)))"

text \<open>
  \<open>str.lower()\<close> follows the Unicode character database (it can change the length of a
  text, and depends on context for the Greek sigma), so wherever the code lowers a text
  the function is a parameter of the model. \<open>ascii_lower\<close> is what it does on text whose
  only cased letters are ASCII.
\<close>

definition lower_cp :: "codepoint \<Rightarrow> codepoint" where
  "lower_cp c = (if 65 \<le> c \<and> c \<le> 90 then c + 32 else c)"

definition ascii_lower :: "pystr \<Rightarrow> pystr" where
  "ascii_lower t = map lower_cp t"

text \<open>\<open>t.split(sep)\<close> for a non-empty separator: cut at every occurrence, left to right.\<close>

function split_acc :: "'a list \<Rightarrow> 'a list \<Rightarrow> 'a list \<Rightarrow> 'a list list" where
  "split_acc sep cur [] = [rev cur]"
| "split_acc sep cur (x # xs) =
     (if sep \<noteq> [] \<and> take (length sep) (x # xs) = sep
      then rev cur # split_acc sep [] (drop (length sep) (x # xs))
      else split_acc sep (x # cur) xs)"
  by pat_completeness auto
termination
  by (relation "measure (\<lambda>(sep, cur, xs). length xs)") auto

definition split :: "'a list \<Rightarrow> 'a list \<Rightarrow> 'a list list" where
  "split t sep = split_acc sep [] t"

text \<open>\<open>sep.join(parts)\<close>, and \<open>needle in haystack\<close> on strings.\<close>

fun join :: "'a list \<Rightarrow> 'a list list \<Rightarrow> 'a list" where
  "join sep [] = []"
| "join sep [p] = p"
| "join sep (p # q # ps) = p @ sep @ join sep (q # ps)"

fun contains :: "'a list \<Rightarrow> 'a list \<Rightarrow> bool" where
  "contains [] needle = (needle = [])"
| "contains (x # xs) needle = (take (length needle) (x # xs) = needle \<or> contains xs needle)"

section \<open>Recording pipeline: \<open>recording_processor.py\<close>\<close>

subsection \<open>Translation\<close>

text \<open>
  The result dictionary of \<open>translate_text\<close> and of the offline fallback (keys that are
  absent in a branch are \<open>None\<close> or \<open>False\<close>).
\<close>

record translation_result =
  translated_text :: pystr
  source_language :: string
  target_language :: string
  success :: bool
  service :: "string option"
  fallback :: bool
  error :: "string option"

text \<open>
  A translation provider is an external service. It answers a chunk with a dictionary
  whose \<open>success\<close> is true (with the translated text), with one whose \<open>success\<close> is
  false, or it raises. Both dictionaries may carry a \<open>service\<close> key.
\<close>

datatype provider_reply =
  Translated pystr "string option"
| NotTranslated "string option"
| ProviderRaised

type_synonym provider = "pystr \<Rightarrow> string \<Rightarrow> string \<Rightarrow> provider_reply"

text \<open>
  The part of \<open>RecordingProcessorGoogle\<close> that translation reads: the preference list,
  whether the Google Cloud client was created, whether the \<open>deep_translator\<close> package
  was imported, the providers by the name of their method, and \<open>str.lower\<close>.
\<close>

record translator =
  translation_preference :: "string list"
  translate_client :: bool
  deep_translator_available :: bool
  provider_of :: "string \<Rightarrow> provider"
  unicode_lower :: "pystr \<Rightarrow> pystr"

fun preferred_services :: "translator \<Rightarrow> string list \<Rightarrow> string list" where
  "preferred_services tr [] = []"
| "preferred_services tr (service_name # rest) =
     (if service_name = ''google_cloud'' \<and> translate_client tr
        then [''_translate_with_google_cloud'']
      else if service_name = ''free_google'' \<and> deep_translator_available tr
        then [''_translate_with_free_google'']
      else if service_name = ''mymemory'' \<and> deep_translator_available tr
        then [''_translate_with_mymemory'']
      else if service_name = ''libretranslate'' \<and> deep_translator_available tr
        then [''_translate_with_libre'']
      else if service_name = ''pons'' \<and> deep_translator_available tr
        then [''_translate_with_pons'']
      else []) @ preferred_services tr rest"

definition translation_services :: "translator \<Rightarrow> string list" where
  "translation_services tr =
     (let preferred = preferred_services tr (translation_preference tr) in
      if preferred \<noteq> [] then preferred
      else
        (if translate_client tr then [''_translate_with_google_cloud''] else []) @
        (if deep_translator_available tr
         then [''_translate_with_free_google'', ''_translate_with_mymemory'',
               ''_translate_with_libre'', ''_translate_with_pons'']
         else []))"

text \<open>
  The local variables of \<open>translate_text\<close> that live across the two loops:
  \<open>translated_chunks\<close>, \<open>result\<close> (unbound until the first provider answered), and, as
  a ghost field, the provider calls made so far (service and chunk).
\<close>

record translate_state =
  translated_chunks :: "pystr list"
  last_result :: "provider_reply option"
  provider_calls :: "(string \<times> pystr) list"

datatype chunks_status = AllSuccess | Broke | Raised

fun translate_chunks ::
  "provider \<Rightarrow> string \<Rightarrow> string \<Rightarrow> string \<Rightarrow> pystr list \<Rightarrow> translate_state \<Rightarrow>
     chunks_status \<times> translate_state" where
  "translate_chunks f name src tgt [] st = (AllSuccess, st)"
| "translate_chunks f name src tgt (chunk # rest) st =
     (if strip chunk = [] then
        translate_chunks f name src tgt rest
          (st\<lparr>translated_chunks := translated_chunks st @ [chunk]\<rparr>)
      else
        (let st1 = st\<lparr>provider_calls := provider_calls st @ [(name, chunk)]\<rparr> in
         case f chunk src tgt of
           ProviderRaised \<Rightarrow> (Raised, st1)
         | NotTranslated sv \<Rightarrow> (Broke, st1\<lparr>last_result := Some (NotTranslated sv)\<rparr>)
         | Translated t sv \<Rightarrow>
             translate_chunks f name src tgt rest
               (st1\<lparr>translated_chunks := translated_chunks st1 @ [t],
                    last_result := Some (Translated t sv)\<rparr>)))"

text \<open>\<open>result.get("service", service_func.__name__)\<close>\<close>

fun reply_service :: "provider_reply \<Rightarrow> string \<Rightarrow> string" where
  "reply_service (Translated t (Some sv)) name = sv"
| "reply_service (NotTranslated (Some sv)) name = sv"
| "reply_service r name = name"

text \<open>
  The loop over the services. Reading \<open>result\<close> while it is unbound raises
  \<open>NameError\<close>, which the loop's \<open>except\<close> turns into "try the next service".
\<close>

fun try_services ::
  "translator \<Rightarrow> string \<Rightarrow> string \<Rightarrow> pystr list \<Rightarrow> string list \<Rightarrow> translate_state \<Rightarrow>
     string option \<times> translate_state" where
  "try_services tr src tgt chunks [] st = (None, st)"
| "try_services tr src tgt chunks (name # names) st =
     (case translate_chunks (provider_of tr name) name src tgt chunks
             (st\<lparr>translated_chunks := []\<rparr>) of
        (AllSuccess, st1) \<Rightarrow>
          (case last_result st1 of
             None \<Rightarrow> try_services tr src tgt chunks names st1
           | Some r \<Rightarrow> (Some (reply_service r name), st1))
      | (Broke, st1) \<Rightarrow> try_services tr src tgt chunks names st1
      | (Raised, st1) \<Rightarrow> try_services tr src tgt chunks names st1)"

text \<open>
  \<open>_split_text_into_chunks\<close>. First the scan for sentence ends: the character at a
  sentence ending closes the current sentence, and the space of a two-character ending
  is skipped.
\<close>

definition sentence_endings :: "pystr list" where
  "sentence_endings = [[46, 32], [33, 32], [63, 32], [2404, 32], [2405, 32], [124]]"

function find_sentences :: "pystr \<Rightarrow> pystr \<Rightarrow> pystr list \<Rightarrow> pystr list \<times> pystr" where
  "find_sentences [] current_sentence sentences = (sentences, current_sentence)"
| "find_sentences (c # cs) current_sentence sentences =
     (case find (\<lambda>ending. take (length ending) (c # cs) = ending) sentence_endings of
        Some ending \<Rightarrow>
          find_sentences (drop (length ending - 1) cs) [] (sentences @ [current_sentence @ [c]])
      | None \<Rightarrow> find_sentences cs (current_sentence @ [c]) sentences)"
  by pat_completeness auto
termination
  by (relation "measure (\<lambda>(t, cur, acc). length t)") auto

text \<open>\<open>s.split()\<close>: the maximal runs of characters that are not white space.\<close>

fun split_whitespace :: "pystr \<Rightarrow> pystr \<Rightarrow> pystr list" where
  "split_whitespace cur [] = (if cur = [] then [] else [rev cur])"
| "split_whitespace cur (c # cs) =
     (if isspace c then (if cur = [] then [] else [rev cur]) @ split_whitespace [] cs
      else split_whitespace (c # cur) cs)"

text \<open>The word loop used when no sentence end was found, filling to half the size.\<close>

fun words_to_sentences :: "nat \<Rightarrow> pystr list \<Rightarrow> pystr list \<times> pystr \<Rightarrow> pystr list \<times> pystr" where
  "words_to_sentences max_size [] (sentences, current) = (sentences, current)"
| "words_to_sentences max_size (word # ws) (sentences, current) =
     (if length (current @ word @ [32]) \<le> max_size div 2 then
        words_to_sentences max_size ws (sentences, current @ word @ [32])
      else
        words_to_sentences max_size ws
          (if current \<noteq> [] then sentences @ [strip current] else sentences, word @ [32]))"

text \<open>The word loop for a sentence longer than a chunk.\<close>

fun split_long_sentence :: "nat \<Rightarrow> pystr list \<Rightarrow> pystr list \<times> pystr \<Rightarrow> pystr list \<times> pystr" where
  "split_long_sentence max_size [] (chunks, temp_chunk) = (chunks, temp_chunk)"
| "split_long_sentence max_size (word # ws) (chunks, temp_chunk) =
     (if length (temp_chunk @ word @ [32]) \<le> max_size then
        split_long_sentence max_size ws (chunks, temp_chunk @ word @ [32])
      else
        split_long_sentence max_size ws
          (if temp_chunk \<noteq> [] then chunks @ [strip temp_chunk] else chunks, word @ [32]))"

text \<open>The loop that combines sentences into chunks.\<close>

fun combine_sentences :: "nat \<Rightarrow> pystr list \<Rightarrow> pystr list \<times> pystr \<Rightarrow> pystr list \<times> pystr" where
  "combine_sentences max_size [] (chunks, current_chunk) = (chunks, current_chunk)"
| "combine_sentences max_size (sentence0 # ss) (chunks, current_chunk) =
     (let sentence = strip sentence0 in
      if sentence = [] then combine_sentences max_size ss (chunks, current_chunk)
      else if length (current_chunk @ sentence @ [32]) \<le> max_size then
        combine_sentences max_size ss (chunks, current_chunk @ sentence @ [32])
      else
        (let chunks1 = (if current_chunk \<noteq> [] then chunks @ [strip current_chunk] else chunks) in
         if length sentence > max_size then
           combine_sentences max_size ss
             (split_long_sentence max_size (split_whitespace [] sentence) (chunks1, []))
         else combine_sentences max_size ss (chunks1, sentence @ [32])))"

text \<open>
  The forced split \<open>text[i:i + max_size] for i in range(0, len(text), max_size)\<close>; a
  step of 0 makes \<open>range\<close> raise, which the two sizes in use (10000 and 4000) never do.
\<close>

function force_split :: "nat \<Rightarrow> pystr \<Rightarrow> pystr list" where
  "force_split max_size t =
     (if max_size = 0 \<or> t = [] then []
      else take max_size t # force_split max_size (drop max_size t))"
  by pat_completeness auto
termination
  by (relation "measure (\<lambda>(n, t). length t)") auto

declare force_split.simps [simp del]

definition split_text_into_chunks :: "pystr \<Rightarrow> nat \<Rightarrow> pystr list" where
  "split_text_into_chunks t max_size =
     (if length t \<le> max_size then [t]
      else
        (let found = (case find_sentences t [] [] of
                        (sentences, current_sentence) \<Rightarrow>
                          if strip current_sentence \<noteq> [] then sentences @ [current_sentence]
                          else sentences);
             sentences =
               (if length found \<le> 1 then
                  (if 10 \<in> set t then split t [10]
                   else
                     (case words_to_sentences max_size (split t [32]) ([], []) of
                        (sentences, current) \<Rightarrow>
                          if current \<noteq> [] then sentences @ [strip current] else sentences))
                else found)
         in
         case combine_sentences max_size sentences ([], []) of
           (chunks, current_chunk) \<Rightarrow>
             (let chunks1 = (if strip current_chunk \<noteq> [] then chunks @ [strip current_chunk]
                             else chunks)
              in if chunks1 = [] then force_split max_size t else chunks1)))"

text \<open>The phrase tables of \<open>_get_offline_translation\<close>, keys in source order.\<close>

definition simple_translations :: "string \<Rightarrow> (pystr \<times> pystr) list option" where
  "simple_translations lang =
     (if lang = ''hi'' then Some
        [(str ''hello'', [2344, 2350, 2360, 2381, 2340, 2375]),
         (str ''hello world'',
            [2344, 2350, 2360, 2381, 2340, 2375, 32, 2342, 2369, 2344, 2367, 2351, 2366]),
         (str ''how are you'', [2310, 2346, 32, 2325, 2376, 2360, 2375, 32, 2361, 2376, 2306]),
         (str ''thank you'', [2343, 2344, 2381, 2351, 2357, 2366, 2342]),
         (str ''goodbye'', [2309, 2354, 2357, 2367, 2342, 2366]),
         (str ''yes'', [2361, 2366, 2305]),
         (str ''no'', [2344, 2361, 2368, 2306])]
      else if lang = ''bn'' then Some
        [(str ''hello'', [2472, 2478, 2488, 2509, 2453, 2494, 2480]),
         (str ''hello world'',
            [2472, 2478, 2488, 2509, 2453, 2494, 2480, 32, 2474, 2499, 2469, 2495, 2476, 2496]),
         (str ''how are you'',
            [2438, 2474, 2472, 2495, 32, 2453, 2503, 2478, 2472, 32, 2438, 2459, 2503, 2472]),
         (str ''thank you'', [2471, 2472, 2509, 2479, 2476, 2494, 2470]),
         (str ''goodbye'', [2476, 2495, 2470, 2494, 2479, 2492])]
      else if lang = ''en'' then Some
        [(str ''hello'', str ''hello''),
         (str ''hello world'', str ''hello world''),
         (str ''how are you'', str ''how are you''),
         (str ''thank you'', str ''thank you''),
         (str ''goodbye'', str ''goodbye'')]
      else None)"

text \<open>
  \<open>{v: k for k, v in table.items()}\<close>: for a value that occurs twice the later key
  wins, so the reversed table is searched from its end.
\<close>

definition reverse_dict :: "(pystr \<times> pystr) list \<Rightarrow> pystr \<Rightarrow> pystr option" where
  "reverse_dict table = map_of (rev (map (\<lambda>(k, v). (v, k)) table))"

definition get_offline_translation ::
  "translator \<Rightarrow> pystr \<Rightarrow> string \<Rightarrow> string \<Rightarrow> translation_result" where
  "get_offline_translation tr t source_lang target_lang =
     (let text_lower = strip (unicode_lower tr t) in
      case (if source_lang = ''en'' then simple_translations target_lang else None) of
        Some table \<Rightarrow>
          (let translated = (case map_of table text_lower of Some v \<Rightarrow> v | None \<Rightarrow> t) in
           \<lparr>translated_text = translated, source_language = source_lang,
            target_language = target_lang, success = (translated \<noteq> t), service = None,
            fallback = True, error = None\<rparr>)
      | None \<Rightarrow>
          (case (if target_lang = ''en'' then simple_translations source_lang else None) of
             Some table \<Rightarrow>
               (let translated =
                      (case reverse_dict table text_lower of Some k \<Rightarrow> k | None \<Rightarrow> t) in
                \<lparr>translated_text = translated, source_language = source_lang,
                 target_language = target_lang, success = (translated \<noteq> t), service = None,
                 fallback = True, error = None\<rparr>)
           | None \<Rightarrow>
               \<lparr>translated_text = t, source_language = source_lang,
                target_language = target_lang, success = False, service = None,
                fallback = False,
                error = Some ''Translation service unavailable, used original text''\<rparr>))"

text \<open>
  \<open>translate_text\<close>, with the provider calls it made. The first test returns before
  anything else is done.
\<close>

definition translate_text ::
  "translator \<Rightarrow> pystr \<Rightarrow> string \<Rightarrow> string \<Rightarrow> translation_result \<times> (string \<times> pystr) list"
where
  "translate_text tr t source_lang target_lang =
     (if source_lang = target_lang \<or> strip t = [] then
        (\<lparr>translated_text = t, source_language = source_lang,
          target_language = target_lang, success = True,
          service = Some ''no_translation_needed'', fallback = False, error = None\<rparr>, [])
      else
        (let max_chunk_size =
               (if ''google_cloud'' \<in> set (take 2 (translation_preference tr))
                then 10000 else 4000);
             text_chunks = split_text_into_chunks t max_chunk_size
         in
         case try_services tr source_lang target_lang text_chunks (translation_services tr)
                \<lparr>translated_chunks = [], last_result = None, provider_calls = []\<rparr> of
           (successful_service, st) \<Rightarrow>
             (case successful_service of
                Some sv \<Rightarrow>
                  if translated_chunks st \<noteq> [] \<and> sv \<noteq> [] then
                    (\<lparr>translated_text = join (str '' '') (translated_chunks st),
                      source_language = source_lang, target_language = target_lang,
                      success = True, service = Some sv, fallback = False, error = None\<rparr>,
                     provider_calls st)
                  else
                    (get_offline_translation tr t source_lang target_lang, provider_calls st)
              | None \<Rightarrow>
                  (get_offline_translation tr t source_lang target_lang, provider_calls st))))"

subsection \<open>Text to speech\<close>

text \<open>
  \<open>_chunk_text_for_tts\<close>. The three nested loops, innermost first; each carries the
  list \<open>chunks\<close> and its own current chunk. \<open>last_sentence\<close> is \<open>sentences[-1]\<close>, to which
  every sentence is compared by value.
\<close>

fun split_word_by_chars :: "nat \<Rightarrow> pystr \<Rightarrow> pystr list \<times> pystr \<Rightarrow> pystr list \<times> pystr" where
  "split_word_by_chars max_bytes [] (chunks, char_chunk) = (chunks, char_chunk)"
| "split_word_by_chars max_bytes (c # cs) (chunks, char_chunk) =
     (let test_char_chunk = char_chunk @ [c] in
      if encode_len test_char_chunk > max_bytes then
        split_word_by_chars max_bytes cs
          (if char_chunk \<noteq> [] then chunks @ [char_chunk] else chunks, [c])
      else split_word_by_chars max_bytes cs (chunks, test_char_chunk))"

fun split_sentence_by_words ::
  "nat \<Rightarrow> pystr list \<Rightarrow> pystr list \<times> pystr \<Rightarrow> pystr list \<times> pystr" where
  "split_sentence_by_words max_bytes [] (chunks, word_chunk) = (chunks, word_chunk)"
| "split_sentence_by_words max_bytes (word # ws) (chunks, word_chunk) =
     (let test_word_chunk = (if word_chunk \<noteq> [] then word_chunk @ str '' '' @ word else word) in
      if encode_len test_word_chunk > max_bytes then
        (if word_chunk \<noteq> [] then
           split_sentence_by_words max_bytes ws (chunks @ [strip word_chunk], word)
         else
           (case split_word_by_chars max_bytes word (chunks, []) of
              (chunks1, char_chunk) \<Rightarrow>
                split_sentence_by_words max_bytes ws
                  (if char_chunk \<noteq> [] then chunks1 @ [char_chunk] else chunks1, [])))
      else split_sentence_by_words max_bytes ws (chunks, test_word_chunk))"

fun chunk_sentences ::
  "nat \<Rightarrow> pystr \<Rightarrow> pystr list \<Rightarrow> pystr list \<times> pystr \<Rightarrow> pystr list \<times> pystr" where
  "chunk_sentences max_bytes last_sentence [] (chunks, current_chunk) = (chunks, current_chunk)"
| "chunk_sentences max_bytes last_sentence (sentence # ss) (chunks, current_chunk) =
     (let test_sentence = sentence @ (if sentence \<noteq> last_sentence then str ''. '' else []);
          test_chunk = current_chunk @ test_sentence in
      if encode_len test_chunk > max_bytes then
        (if current_chunk \<noteq> [] then
           chunk_sentences max_bytes last_sentence ss
             (chunks @ [strip current_chunk], test_sentence)
         else
           (case split_sentence_by_words max_bytes (split sentence (str '' '')) (chunks, []) of
              (chunks1, word_chunk) \<Rightarrow>
                chunk_sentences max_bytes last_sentence ss
                  (chunks1,
                   if word_chunk \<noteq> []
                   then word_chunk @ (if sentence \<noteq> last_sentence then str ''. '' else [])
                   else [])))
      else chunk_sentences max_bytes last_sentence ss (chunks, test_chunk))"

definition chunk_text_for_tts :: "pystr \<Rightarrow> nat \<Rightarrow> pystr list" where
  "chunk_text_for_tts t max_bytes =
     (if encode_len t \<le> max_bytes then [t]
      else
        (let sentences = split t (str ''. '') in
         case chunk_sentences max_bytes (last sentences) sentences ([], []) of
           (chunks, current_chunk) \<Rightarrow>
             if current_chunk \<noteq> [] then chunks @ [strip current_chunk] else chunks))"

text \<open>
  The TTS provider (\<open>tts_client.synthesize_speech\<close>) returns audio for an input or
  raises; writing the audio and metadata files and joining the segments with ffmpeg
  succeeds or raises.
\<close>

record tts_env =
  tts_client :: "pystr \<Rightarrow> bool"
  tts_files_ok :: bool

text \<open>The \<open>for i, chunk in enumerate(text_chunks)\<close> loop, with the inputs sent so far.\<close>

fun synthesize_chunks :: "(pystr \<Rightarrow> bool) \<Rightarrow> pystr list \<Rightarrow> pystr list \<Rightarrow> bool \<times> pystr list" where
  "synthesize_chunks client [] sent = (True, sent)"
| "synthesize_chunks client (chunk # rest) sent =
     (if client chunk then synthesize_chunks client rest (sent @ [chunk])
      else (False, sent @ [chunk]))"

text \<open>
  \<open>text_to_speech\<close> with the default chunk budget: whether an audio file was produced,
  and the inputs passed to the provider, in order. A single chunk makes the function
  send the whole text.
\<close>

definition text_to_speech :: "tts_env \<Rightarrow> pystr \<Rightarrow> bool \<times> pystr list" where
  "text_to_speech env t =
     (let text_chunks = chunk_text_for_tts t 4500 in
      if length text_chunks = 1 then
        (if tts_client env t then (tts_files_ok env, [t]) else (False, [t]))
      else
        (case synthesize_chunks (tts_client env) text_chunks [] of
           (ok, sent) \<Rightarrow> (ok \<and> tts_files_ok env, sent)))"

subsection \<open>Processing one recording\<close>

text \<open>
  What \<open>transcribe_audio\<close> returns (it catches its own exceptions; when every
  speech-to-text path failed the transcript is empty and \<open>error\<close> is set). Confidence
  and speaker segments play no part below and are left out.
\<close>

record transcription_result =
  transcript :: pystr
  language :: string
  stt_error :: "string option"

text \<open>The transcript artifact: the \<open>result\<close> dictionary written as JSON (without its timestamp).\<close>

record transcript_artifact =
  file_path :: path
  transcription :: transcription_result
  translation :: translation_result
  artifact_success :: bool

record recorder_config =
  translation_enabled :: bool
  config_target_language :: string

text \<open>
  What one call of \<open>process_recording\<close> meets: the file (path, stem, lower-cased
  suffix), the file system seen by the readiness check, whether ffmpeg converts the
  file, what speech-to-text returns, and whether the transcript file can be written.
\<close>

record recording_input =
  rec_path :: path
  rec_stem :: string
  rec_suffix :: string
  rec_env :: file_env
  rec_convert_ok :: bool
  rec_stt :: transcription_result
  rec_write_ok :: bool

text \<open>
  \<open>process_recording\<close>: the returned dictionary is \<open>Inl error\<close> for
  \<open>{"success": False, "error": error, ...}\<close> and \<open>Inr artifact\<close> for the artifact; the
  second component is the transcripts directory, by file name.
  \<open>RecordingProcessorGoogle.is_file_ready\<close> is line for line the fetcher's.
\<close>

definition process_recording ::
  "translator \<Rightarrow> recorder_config \<Rightarrow> recording_input \<Rightarrow> (string \<rightharpoonup> transcript_artifact) \<Rightarrow>
     (string + transcript_artifact) \<times> (string \<rightharpoonup> transcript_artifact)" where
  "process_recording tr cfg inp transcripts_dir =
     (if \<not> fst (is_file_ready (rec_env inp) 5 120) then
        (Inl ''File not ready for processing'', transcripts_dir)
      else if rec_suffix inp \<noteq> ''.wav'' \<and> \<not> rec_convert_ok inp then
        (Inl ''ffmpeg failed'', transcripts_dir)
      else
        (let transcription_result = rec_stt inp in
         if transcript transcription_result = [] then
           (Inl ''No transcript generated'', transcripts_dir)
         else
           (let translation_result =
                  (if translation_enabled cfg \<and>
                      language transcription_result \<noteq> config_target_language cfg
                   then fst (translate_text tr (transcript transcription_result)
                               (language transcription_result) (config_target_language cfg))
                   else
                     \<lparr>translated_text = transcript transcription_result,
                      source_language = language transcription_result,
                      target_language = config_target_language cfg, success = True,
                      service = None, fallback = False, error = None\<rparr>);
                result = \<lparr>file_path = rec_path inp, transcription = transcription_result,
                           translation = translation_result, artifact_success = True\<rparr>
            in
            if rec_write_ok inp then
              (Inr result, transcripts_dir(rec_stem inp @ ''_transcript.json'' \<mapsto> result))
            else (Inl ''could not write transcript'', transcripts_dir))))"

text \<open>
  A processor with the default preference list on a machine where neither the Google
  Cloud client nor \<open>deep_translator\<close> is available, the default configuration, and two
  recordings whose marker file is present: one in Tamil (the words "rain tomorrow"),
  and one on which every speech-to-text path failed.
\<close>

definition offline_translator :: translator where
  "offline_translator =
     \<lparr>translation_preference =
        [''free_google'', ''mymemory'', ''libretranslate'', ''google_cloud'', ''pons''],
      translate_client = False, deep_translator_available = False,
      provider_of = (\<lambda>name chunk src tgt. ProviderRaised),
      unicode_lower = ascii_lower\<rparr>"

definition default_config :: recorder_config where
  "default_config = \<lparr>translation_enabled = True, config_target_language = ''en''\<rparr>"

definition tamil_transcription :: transcription_result where
  "tamil_transcription =
     \<lparr>transcript = [2984, 3006, 2995, 3016, 32, 2990, 2996, 3016], language = ''ta'',
      stt_error = None\<rparr>"

definition tamil_recording :: recording_input where
  "tamil_recording =
     \<lparr>rec_path = ''/monitor/a001.wav'', rec_stem = ''a001'', rec_suffix = ''.wav'',
      rec_env = \<lparr>file_exists = True,
         on_entry = \<lparr>marker_exists = True, st_size = Some 2048\<rparr>,
         polls = (\<lambda>k. \<lparr>marker_exists = True, st_size = Some 2048\<rparr>)\<rparr>,
      rec_convert_ok = True, rec_stt = tamil_transcription, rec_write_ok = True\<rparr>"

definition silent_recording :: recording_input where
  "silent_recording =
     tamil_recording\<lparr>rec_stt :=
       \<lparr>transcript = [], language = ''unknown'',
        stt_error = Some ''Google Cloud Speech client not initialized''\<rparr>\<rparr>"

section \<open>Weather specialist: date validation of \<open>weather_agent.py\<close>\<close>

text \<open>
  A date is its proleptic Gregorian ordinal (\<open>date.toordinal()\<close>: 1 is 0001-01-01 and
  \<open>date_max\<close> is 9999-12-31), so \<open>+ timedelta(days=n)\<close> is \<open>+ n\<close>, raising
  \<open>OverflowError\<close> beyond \<open>date_max\<close>.

  A date field of the parameter dictionary is read through
  \<open>datetime.strptime(params[key], '%Y-%m-%d')\<close>: a string in that format (given by the
  date it denotes), a string that \<open>strptime\<close> rejects with \<open>ValueError\<close>, a value that
  is not a string (\<open>TypeError\<close>), or a missing key (\<open>KeyError\<close>).
\<close>

type_synonym date = int

definition date_max :: date where
  "date_max = 3652059"

datatype date_field = DateString date | BadDateString | NotAString | MissingKey

datatype py_exception = ValueError | TypeError | KeyError | OverflowError

record weather_params =
  location :: "string option"
  start_date :: date_field
  end_date :: date_field
  reasoning :: "string option"

fun strptime :: "date_field \<Rightarrow> py_exception + date" where
  "strptime (DateString d) = Inr d"
| "strptime BadDateString = Inl ValueError"
| "strptime NotAString = Inl TypeError"
| "strptime MissingKey = Inl KeyError"

text \<open>
  \<open>_validate_date_parameters\<close>, with \<open>current_date\<close> for \<open>datetime.now().date()\<close>.
  Only \<open>ValueError\<close> is caught in the function; any other exception leaves it, and
  so does the \<open>OverflowError\<close> of \<open>current_date + timedelta(days=16)\<close>, computed before
  the \<open>try\<close>.
\<close>

definition set_default_dates :: "date \<Rightarrow> weather_params \<Rightarrow> weather_params" where
  "set_default_dates current_date params =
     params\<lparr>start_date := DateString current_date, end_date := DateString (current_date + 7)\<rparr>"

definition validate_date_parameters ::
  "date \<Rightarrow> weather_params \<Rightarrow> py_exception + weather_params" where
  "validate_date_parameters current_date params =
     (let max_forecast_date = current_date + 16 in
      if max_forecast_date > date_max then Inl OverflowError
      else
      case strptime (start_date params) of
        Inl ValueError \<Rightarrow> Inr (set_default_dates current_date params)
      | Inl e \<Rightarrow> Inl e
      | Inr start0 \<Rightarrow>
          (case strptime (end_date params) of
             Inl ValueError \<Rightarrow> Inr (set_default_dates current_date params)
           | Inl e \<Rightarrow> Inl e
           | Inr end0 \<Rightarrow>
               (let (start1, params1) =
                      (if start0 < current_date
                       then (current_date, params\<lparr>start_date := DateString current_date\<rparr>)
                       else (start0, params));
                    (end1, params2) =
                      (if end0 > max_forecast_date
                       then (max_forecast_date,
                             params1\<lparr>end_date := DateString max_forecast_date\<rparr>)
                       else (end0, params1))
                in
                if end1 \<le> start1 then
                  (if start1 + 7 > date_max then Inl OverflowError
                   else Inr (params2\<lparr>end_date := DateString (start1 + 7)\<rparr>))
                else Inr params2)))"

text \<open>The farmer profile, as far as the specialists and the orchestrator read it.\<close>

record farmer_profile =
  profile_phone :: "string option"
  profile_name :: "string option"
  profile_pincode :: "string option"

text \<open>\<open>_get_default_parameters\<close>: an absent profile, or an absent or empty pincode, gives Delhi's.\<close>

definition get_default_parameters :: "date \<Rightarrow> farmer_profile option \<Rightarrow> weather_params" where
  "get_default_parameters current_date profile =
     \<lparr>location =
        Some (case profile of
                None \<Rightarrow> ''110001''
              | Some p \<Rightarrow>
                  (case profile_pincode p of
                     None \<Rightarrow> ''110001''
                   | Some pin \<Rightarrow> if pin = [] then ''110001'' else pin)),
      start_date = DateString current_date,
      end_date = DateString (current_date + 7),
      reasoning = Some ''Default parameters used due to extraction failure''\<rparr>"

text \<open>
  \<open>_extract_weather_parameters\<close>: the language model's reply either holds no JSON
  object that parses (or the call failed), or holds a parameter dictionary.
\<close>

datatype llm_parameters = NoJson | Parameters weather_params

definition extract_weather_parameters ::
  "date \<Rightarrow> farmer_profile option \<Rightarrow> llm_parameters \<Rightarrow> weather_params" where
  "extract_weather_parameters current_date profile reply =
     (case reply of
        NoJson \<Rightarrow> get_default_parameters current_date profile
      | Parameters params \<Rightarrow>
          (case validate_date_parameters current_date params of
             Inl e \<Rightarrow> get_default_parameters current_date profile
           | Inr validated \<Rightarrow> validated))"

text \<open>
  On 2026-11-03 (ordinal 739923) the model extracts, for a sowing question, the range
  2026-11-23 to 2026-11-28 (ordinals 739943 and 739948).
\<close>

definition sowing_params :: weather_params where
  "sowing_params = \<lparr>location = Some ''110001'', start_date = DateString 739943,
     end_date = DateString 739948, reasoning = None\<rparr>"

section \<open>Orchestrator: \<open>orchestrator_agent.py\<close>\<close>

text \<open>
  What a specialist's \<open>process_query\<close> returns, as far as the orchestrator reads it:
  the \<open>status\<close> key (the scheme specialist sets it; the weather, soil and pest
  specialists report through a \<open>success\<close> key instead), the \<open>farmer_response\<close> key,
  \<open>str(response["analysis"])\<close>, \<open>str(response)\<close>, the \<open>orchestrator_insights\<close> (as
  text) with their \<open>required_actions\<close>, and whether \<open>json.dumps\<close> can serialise the
  response.
\<close>

record agent_response =
  resp_status :: "string option"
  resp_success :: "bool option"
  resp_farmer_response :: "pystr option"
  resp_analysis :: "pystr option"
  resp_repr :: pystr
  resp_insights :: "pystr option"
  resp_required_actions :: "pystr list option"
  resp_serialisable :: bool

text \<open>
  Every specialist catches its own exceptions and returns an error dictionary; the
  orchestrator still guards the calls, so a raising specialist is part of the model.
\<close>

datatype agent_outcome = AgentReturned agent_response | AgentRaised

text \<open>
  A dictionary keyed by agent name keeps insertion order; assigning to a key that is
  present replaces the value in place.
\<close>

fun dict_set :: "'k \<Rightarrow> 'v \<Rightarrow> ('k \<times> 'v) list \<Rightarrow> ('k \<times> 'v) list" where
  "dict_set k v [] = [(k, v)]"
| "dict_set k v ((k', v') # rest) =
     (if k = k' then (k, v) # rest else (k', v') # dict_set k v rest)"

text \<open>
  What \<open>_gather_comprehensive_intelligence\<close> returns: the four responses by name, or
  \<open>{"error": ...}\<close> when a specialist raised.
\<close>

datatype intelligence =
  Intelligence "(string \<times> agent_response) list"
| IntelligenceError

text \<open>
  What \<open>_parse_json_response\<close> finds in a reply of the language model: the JSON object
  between the first \<open>{\<close> and the last \<open>}\<close>, if that text parses. Of the object the
  orchestrator reads whether it has the keys \<open>comprehensive_strategy\<close> and \<open>error\<close>, and
  \<open>str(list(object.keys()))\<close>.
\<close>

record json_object =
  jo_has_comprehensive_strategy :: bool
  jo_has_error :: bool
  jo_keys :: pystr

text \<open>
  The strategy dictionary of \<open>_generate_comprehensive_strategy\<close>: the parsed object when
  it has one of the two keys, the reply wrapped as text when it has neither, the parse
  fallback when no object parses, and the error dictionary of the \<open>except\<close> branch.
\<close>

datatype strategy =
  StrategyFromJson json_object
| StrategyFromText pystr
| StrategyUnparsed
| StrategyFailed

text \<open>
  The roadmap of \<open>_create_actionable_roadmap\<close>, by its \<open>immediate_actions\<close> (the other
  lists stay empty and the calendar holds the twelve months from the clock), or its
  error dictionary. The guidance of \<open>_generate_hyperlocal_guidance\<close>, by the pincode and
  the weather insights (the other entries are fixed texts).
\<close>

datatype roadmap = Roadmap "pystr list" | RoadmapError

record hyperlocal =
  hl_pincode :: string
  hl_weather_specific :: "pystr option"

text \<open>The response dictionary of a pipeline (keys absent in a branch are \<open>None\<close> or empty).\<close>

record pipeline_response =
  pr_status :: string
  pr_pipeline_type :: string
  pr_farmer_response :: "pystr option"
  pr_synthesis_quality :: "string option"
  pr_agents_used :: "string list"
  pr_agent_responses :: "(string \<times> agent_response) list"
  pr_agent_intelligence :: "intelligence option"
  pr_comprehensive_strategy :: "strategy option"
  pr_actionable_roadmap :: "roadmap option"
  pr_hyperlocal_guidance :: "hyperlocal option"
  pr_message :: "string option"

text \<open>
  The prompts sent to the language model, by the parts interpolated into them.
  \<open>LLMClient.call_text_llm\<close> catches every exception of the call and returns the text
  \<open>Error: ...\<close> instead, so it is a total function of the prompt.
\<close>

datatype llm_request =
  SynthesisPrompt pystr pystr pystr
| StrategyPrompt pystr pystr "(string \<times> pystr option \<times> pystr option) list"
| ConversionPrompt pystr pystr pipeline_response

text \<open>
  Ghost events of one orchestration, in the order they happen: a specialist's
  \<open>process_query\<close> is entered, returns or raises, and synthesis starts.
\<close>

datatype event = Called string | Returned string | RaisedBy string | SynthesisBegan

record orchestrator_env =
  specialist :: "string \<Rightarrow> pystr \<Rightarrow> string \<Rightarrow> agent_outcome"
  call_text_llm :: "llm_request \<Rightarrow> pystr"
  find_json_object :: "pystr \<Rightarrow> json_object option"

record pipeline_decision =
  pipeline_type :: string
  required_agents :: "string list"

text \<open>
  \<open>_build_farmer_context\<close>, for the profile fields of the model (the land, crop and
  budget lines are those of fields the model's profile does not carry).
\<close>

definition build_farmer_context :: "farmer_profile \<Rightarrow> pystr" where
  "build_farmer_context p =
     (let context_parts =
            (case profile_name p of
               None \<Rightarrow> []
             | Some n \<Rightarrow> if n = [] then [] else [str ''Farmer: '' @ str n]) @
            (case profile_pincode p of
               None \<Rightarrow> []
             | Some pin \<Rightarrow> if pin = [] then [] else [str ''Location: '' @ str pin])
      in if context_parts \<noteq> [] then join [10] context_parts
         else str ''Limited farmer information available'')"

definition upper_cp :: "codepoint \<Rightarrow> codepoint" where
  "upper_cp c = (if 97 \<le> c \<and> c \<le> 122 then c - 32 else c)"

text \<open>The state of the \<open>for agent_name in required_agents\<close> loop.\<close>

record gather_state =
  agent_responses :: "(string \<times> agent_response) list"
  agents_used :: "string list"
  events :: "event list"

definition known_agents :: "string list" where
  "known_agents = [''weather'', ''soil'', ''pest'', ''scheme'']"

text \<open>
  The loop of \<open>_execute_specific_pipeline\<close>: one specialist after the other, each call
  returning before the next is made; a name that is none of the four is skipped. The
  boolean is false when a specialist raised, which ends the loop.
\<close>

fun call_required_agents ::
  "orchestrator_env \<Rightarrow> pystr \<Rightarrow> string list \<Rightarrow> gather_state \<Rightarrow> bool \<times> gather_state" where
  "call_required_agents env farmer_query [] st = (True, st)"
| "call_required_agents env farmer_query (agent_name # rest) st =
     (if agent_name \<in> set known_agents then
        (case specialist env agent_name farmer_query ''specific'' of
           AgentRaised \<Rightarrow>
             (False, st\<lparr>events := events st @ [Called agent_name, RaisedBy agent_name]\<rparr>)
         | AgentReturned response \<Rightarrow>
             call_required_agents env farmer_query rest
               (st\<lparr>agent_responses := dict_set agent_name response (agent_responses st),
                   agents_used := agents_used st @ [agent_name],
                   events := events st @ [Called agent_name, Returned agent_name]\<rparr>))
      else call_required_agents env farmer_query rest st)"

text \<open>The summary of one response in \<open>_synthesize_specific_responses\<close>; only a response
  whose \<open>status\<close> is \<open>success\<close> gets one.\<close>

definition agent_summary :: "string \<times> agent_response \<Rightarrow> pystr list" where
  "agent_summary entry =
     (case entry of
        (agent_name, response) \<Rightarrow>
          if resp_status response = Some ''success'' then
            [[10] @ map upper_cp (str agent_name) @ str '' AGENT RESPONSE:'' @ [10] @
             (case resp_farmer_response response of
                Some r \<Rightarrow> r
              | None \<Rightarrow>
                  (case resp_analysis response of
                     Some a \<Rightarrow> a
                   | None \<Rightarrow> resp_repr response))]
          else [])"

definition synthesize_specific_responses ::
  "orchestrator_env \<Rightarrow> pystr \<Rightarrow> farmer_profile \<Rightarrow> (string \<times> agent_response) list \<Rightarrow> pystr" where
  "synthesize_specific_responses env farmer_query profile responses =
     call_text_llm env
       (SynthesisPrompt (build_farmer_context profile) farmer_query
          (concat (concat (map agent_summary responses))))"

definition execute_specific_pipeline ::
  "orchestrator_env \<Rightarrow> pystr \<Rightarrow> farmer_profile \<Rightarrow> pipeline_decision \<Rightarrow>
     pipeline_response \<times> event list" where
  "execute_specific_pipeline env farmer_query profile decision =
     (case call_required_agents env farmer_query (required_agents decision)
             \<lparr>agent_responses = [], agents_used = [], events = []\<rparr> of
        (True, st) \<Rightarrow>
          (\<lparr>pr_status = ''success'', pr_pipeline_type = ''specific'',
            pr_farmer_response =
              Some (synthesize_specific_responses env farmer_query profile (agent_responses st)),
            pr_synthesis_quality = Some ''high'',
            pr_agents_used = agents_used st, pr_agent_responses = agent_responses st,
            pr_agent_intelligence = None, pr_comprehensive_strategy = None,
            pr_actionable_roadmap = None, pr_hyperlocal_guidance = None,
            pr_message = None\<rparr>,
           events st @ [SynthesisBegan])
      | (False, st) \<Rightarrow>
          (\<lparr>pr_status = ''error'', pr_pipeline_type = ''specific'', pr_farmer_response = None,
            pr_synthesis_quality = None,
            pr_agents_used = agents_used st, pr_agent_responses = [],
            pr_agent_intelligence = None, pr_comprehensive_strategy = None,
            pr_actionable_roadmap = None, pr_hyperlocal_guidance = None,
            pr_message = Some ''Specific pipeline failed''\<rparr>,
           events st))"

text \<open>
  \<open>_gather_comprehensive_intelligence\<close>: the four specialists in the order weather, soil,
  pest, scheme, each with its fixed question and in \<open>generic\<close> mode. A specialist that
  raises ends the gathering and what was gathered is dropped.
\<close>

definition generic_question :: "string \<Rightarrow> pystr" where
  "generic_question agent_name =
     (if agent_name = ''weather''
        then str ''Provide comprehensive weather guidance for farming activities''
      else if agent_name = ''soil''
        then str ''Provide comprehensive soil management and fertilizer guidance''
      else if agent_name = ''pest''
        then str ''Provide comprehensive pest management and prevention guidance''
      else str ''Identify all relevant schemes and financial opportunities'')"

fun gather_from ::
  "orchestrator_env \<Rightarrow> string list \<Rightarrow> (string \<times> agent_response) list \<times> event list \<Rightarrow>
     intelligence \<times> event list" where
  "gather_from env [] (found, evs) = (Intelligence found, evs)"
| "gather_from env (agent_name # rest) (found, evs) =
     (case specialist env agent_name (generic_question agent_name) ''generic'' of
        AgentRaised \<Rightarrow> (IntelligenceError, evs @ [Called agent_name, RaisedBy agent_name])
      | AgentReturned response \<Rightarrow>
          gather_from env rest
            (dict_set agent_name response found,
             evs @ [Called agent_name, Returned agent_name]))"

definition gather_comprehensive_intelligence :: "orchestrator_env \<Rightarrow> intelligence \<times> event list" where
  "gather_comprehensive_intelligence env = gather_from env known_agents ([], [])"

text \<open>
  \<open>_summarize_agent_intelligence\<close>: for each response whose \<open>status\<close> is \<open>success\<close>,
  its name, its insights and the first 200 characters of its \<open>farmer_response\<close>.
\<close>

definition summarize_agent_intelligence ::
  "(string \<times> agent_response) list \<Rightarrow> (string \<times> pystr option \<times> pystr option) list" where
  "summarize_agent_intelligence found =
     map (\<lambda>(agent_name, agent_data).
            (agent_name, resp_insights agent_data,
             map_option (take 200) (resp_farmer_response agent_data)))
       (filter (\<lambda>(agent_name, agent_data). resp_status agent_data = Some ''success'') found)"

text \<open>
  \<open>_generate_comprehensive_strategy\<close>. On the error dictionary of a failed gathering the
  summary raises, and the \<open>except\<close> branch answers.
\<close>

definition generate_comprehensive_strategy ::
  "orchestrator_env \<Rightarrow> pystr \<Rightarrow> farmer_profile \<Rightarrow> intelligence \<Rightarrow> strategy" where
  "generate_comprehensive_strategy env farmer_query profile all_agent_data =
     (case all_agent_data of
        IntelligenceError \<Rightarrow> StrategyFailed
      | Intelligence found \<Rightarrow>
          (let strategy_response =
                 call_text_llm env
                   (StrategyPrompt (build_farmer_context profile) farmer_query
                      (summarize_agent_intelligence found))
           in
           case find_json_object env strategy_response of
             None \<Rightarrow> StrategyUnparsed
           | Some object \<Rightarrow>
               if \<not> jo_has_comprehensive_strategy object \<and> \<not> jo_has_error object
               then StrategyFromText strategy_response
               else StrategyFromJson object))"

definition create_actionable_roadmap :: "intelligence \<Rightarrow> roadmap" where
  "create_actionable_roadmap all_agent_data =
     (case all_agent_data of
        IntelligenceError \<Rightarrow> RoadmapError
      | Intelligence found \<Rightarrow>
          Roadmap
            (concat
               (map (\<lambda>(agent_name, agent_data).
                       if resp_status agent_data = Some ''success'' then
                         (case resp_required_actions agent_data of
                            Some actions \<Rightarrow> actions
                          | None \<Rightarrow> [])
                       else [])
                  found)))"

definition generate_hyperlocal_guidance :: "farmer_profile \<Rightarrow> intelligence \<Rightarrow> hyperlocal" where
  "generate_hyperlocal_guidance profile all_agent_data =
     \<lparr>hl_pincode = (case profile_pincode profile of None \<Rightarrow> ''Unknown'' | Some pin \<Rightarrow> pin),
      hl_weather_specific =
        (case all_agent_data of
           IntelligenceError \<Rightarrow> None
         | Intelligence found \<Rightarrow>
             (case map_of found ''weather'' of
                None \<Rightarrow> None
              | Some weather_data \<Rightarrow>
                  if resp_status weather_data = Some ''success''
                  then resp_insights weather_data else None))\<rparr>"

text \<open>
  \<open>_execute_generic_pipeline\<close>. Each of the three stages after the gathering catches
  its own exceptions, so the pipeline always ends with status \<open>success\<close>.
\<close>

definition execute_generic_pipeline ::
  "orchestrator_env \<Rightarrow> pystr \<Rightarrow> farmer_profile \<Rightarrow> pipeline_response \<times> event list" where
  "execute_generic_pipeline env farmer_query profile =
     (case gather_comprehensive_intelligence env of
        (all_agent_data, evs) \<Rightarrow>
          (\<lparr>pr_status = ''success'', pr_pipeline_type = ''generic'', pr_farmer_response = None,
            pr_synthesis_quality = None,
            pr_agents_used = [''weather'', ''soil'', ''pest'', ''scheme''],
            pr_agent_responses = [],
            pr_agent_intelligence = Some all_agent_data,
            pr_comprehensive_strategy =
              Some (generate_comprehensive_strategy env farmer_query profile all_agent_data),
            pr_actionable_roadmap = Some (create_actionable_roadmap all_agent_data),
            pr_hyperlocal_guidance = Some (generate_hyperlocal_guidance profile all_agent_data),
            pr_message = None\<rparr>,
           evs @ [SynthesisBegan]))"

text \<open>
  Whether \<open>json.dumps\<close> can serialise a pipeline response: every specialist response in
  it must be serialisable (the rest is text, lists of text and parsed JSON).
\<close>

definition response_serialisable :: "pipeline_response \<Rightarrow> bool" where
  "response_serialisable response =
     (list_all (\<lambda>(agent_name, agent_data). resp_serialisable agent_data)
        (pr_agent_responses response) \<and>
      (case pr_agent_intelligence response of
         Some (Intelligence found) \<Rightarrow>
           list_all (\<lambda>(agent_name, agent_data). resp_serialisable agent_data) found
       | Some IntelligenceError \<Rightarrow> True
       | None \<Rightarrow> True))"

text \<open>\<open>str(list(strategy.keys()))\<close> for the strategy dictionaries.\<close>

definition repr_keys :: "string list \<Rightarrow> pystr" where
  "repr_keys ks = [91] @ join (str '', '') (map (\<lambda>k. [39] @ str k @ [39]) ks) @ [93]"

fun strategy_keys :: "strategy \<Rightarrow> pystr" where
  "strategy_keys (StrategyFromJson object) = jo_keys object"
| "strategy_keys (StrategyFromText t) =
     repr_keys [''comprehensive_strategy'', ''generation_method'', ''integration_level'',
       ''situational_analysis'', ''strategic_objectives'', ''integrated_action_plan'',
       ''implementation_timeline'', ''success_metrics'']"
| "strategy_keys StrategyUnparsed = repr_keys [''error'', ''message'', ''fallback_available'']"
| "strategy_keys StrategyFailed = repr_keys [''error'', ''message'', ''fallback_available'']"

text \<open>
  \<open>_convert_json_to_english\<close>: a response that carries a \<open>farmer_response\<close> text is
  answered with it; otherwise the model rewrites the response. When the response cannot
  be serialised for the prompt, the \<open>except\<close> branch answers with a fixed text.
\<close>

definition convert_json_to_english ::
  "orchestrator_env \<Rightarrow> pipeline_response \<Rightarrow> pystr \<Rightarrow> farmer_profile \<Rightarrow> pystr" where
  "convert_json_to_english env response farmer_query profile =
     (case pr_farmer_response response of
        Some r \<Rightarrow> r
      | None \<Rightarrow>
          if response_serialisable response then
            strip (call_text_llm env
                     (ConversionPrompt (build_farmer_context profile) farmer_query response))
          else
            (case pr_comprehensive_strategy response of
               Some st \<Rightarrow>
                 str (''We have prepared a detailed strategy for you. Please contact our '' @
                      ''support for more details. Strategy includes: '') @ strategy_keys st
             | None \<Rightarrow>
                 str (''We have processed your request and have some recommendations. '' @
                      ''Please contact our support for detailed advice.'')))"

text \<open>
  \<open>process_farmer_request\<close>. Steps 1 to 3 (profile, query, classification) each catch
  their own exceptions and always return, so their results are given; with them no path
  reaches the \<open>except\<close> branch of the function, whose apology text is therefore no
  result of the model. The function returns the text for the farmer; the model returns
  the events of the orchestration with it.
\<close>

record request_analysis =
  ra_profile :: farmer_profile
  ra_query :: pystr
  ra_decision :: pipeline_decision

definition process_farmer_request ::
  "orchestrator_env \<Rightarrow> request_analysis \<Rightarrow> pystr \<times> event list" where
  "process_farmer_request env ra =
     (case (if pipeline_type (ra_decision ra) = ''specific''
            then execute_specific_pipeline env (ra_query ra) (ra_profile ra) (ra_decision ra)
            else execute_generic_pipeline env (ra_query ra) (ra_profile ra)) of
        (response, evs) \<Rightarrow>
          (convert_json_to_english env response (ra_query ra) (ra_profile ra), evs))"

text \<open>
  The largest number of specialist calls in flight at any moment of a run: a call is in
  flight from its \<open>Called\<close> event to its \<open>Returned\<close> or \<open>RaisedBy\<close> event.
\<close>

fun in_flight :: "event list \<Rightarrow> nat \<Rightarrow> nat" where
  "in_flight [] now = now"
| "in_flight (Called a # evs) now = max (Suc now) (in_flight evs (Suc now))"
| "in_flight (Returned a # evs) now = max now (in_flight evs (now - 1))"
| "in_flight (RaisedBy a # evs) now = max now (in_flight evs (now - 1))"
| "in_flight (SynthesisBegan # evs) now = max now (in_flight evs now)"

text \<open>
  The events of calling the specialists of a list one after the other, given which of
  them return: a call and its return for each, up to the first that raises.
\<close>

fun call_pairs :: "(string \<Rightarrow> bool) \<Rightarrow> string list \<Rightarrow> event list" where
  "call_pairs returns [] = []"
| "call_pairs returns (n # ns) =
     (if returns n then Called n # Returned n # call_pairs returns ns
      else [Called n, RaisedBy n])"

text \<open>
  A farmer asks about rain and pests. The weather service is down, so the weather
  specialist returns its error dictionary; the pest specialist answers. In a second
  setting the pest specialist fails as well. The language model answers every prompt
  with the same advice, which holds no JSON object.
\<close>

definition weather_down :: agent_response where
  "weather_down = \<lparr>resp_status = None, resp_success = Some False,
     resp_farmer_response = None, resp_analysis = None,
     resp_repr = str ''{success: False, error: 500, agent: weather}'',
     resp_insights = None, resp_required_actions = None, resp_serialisable = True\<rparr>"

definition pest_down :: agent_response where
  "pest_down = \<lparr>resp_status = None, resp_success = Some False,
     resp_farmer_response = None, resp_analysis = None,
     resp_repr = str ''{success: False, error: no database, agent: pest}'',
     resp_insights = None, resp_required_actions = None, resp_serialisable = True\<rparr>"

definition pest_found :: agent_response where
  "pest_found = \<lparr>resp_status = Some ''success'', resp_success = Some True,
     resp_farmer_response = Some (str ''Spray neem oil against whitefly.''),
     resp_analysis = None, resp_repr = str ''{status: success, agent: pest}'',
     resp_insights = None, resp_required_actions = None, resp_serialisable = True\<rparr>"

definition advice :: pystr where
  "advice = str ''Please ask your local extension officer about rain and pests.''"

definition one_down_env :: orchestrator_env where
  "one_down_env =
     \<lparr>specialist = (\<lambda>n q mode. AgentReturned (if n = ''weather'' then weather_down else pest_found)),
      call_text_llm = (\<lambda>request. advice), find_json_object = (\<lambda>reply. None)\<rparr>"

definition all_down_env :: orchestrator_env where
  "all_down_env =
     \<lparr>specialist = (\<lambda>n q mode. AgentReturned (if n = ''weather'' then weather_down else pest_down)),
      call_text_llm = (\<lambda>request. advice), find_json_object = (\<lambda>reply. None)\<rparr>"

definition rain_and_pests :: request_analysis where
  "rain_and_pests =
     \<lparr>ra_profile = \<lparr>profile_phone = Some ''9876001234'', profile_name = None,
                     profile_pincode = None\<rparr>,
      ra_query = str ''Will it rain and what are these white insects?'',
      ra_decision = \<lparr>pipeline_type = ''specific'', required_agents = [''weather'', ''pest'']\<rparr>\<rparr>"

section \<open>Response delivery: \<open>transcript_monitor.py\<close>\<close>

subsection \<open>Translation and speech for a reply (\<open>recording_processor.py\<close>)\<close>

text \<open>\<open>lower()\<close> on a language code (language codes are ASCII).\<close>

definition lower_str :: "string \<Rightarrow> string" where
  "lower_str s = map (\<lambda>c. char_of (lower_cp (of_char c))) s"

text \<open>
  Ghost events of the delivery of one reply: a call of \<open>translate_text\<close> (text, source
  and target code) and an input passed to the TTS provider (text and language).
\<close>

datatype delivery_event = TranslateRequest pystr string string | TtsRequest pystr string

text \<open>
  \<open>translate_to_language\<close>: the translated text and \<open>success\<close>, with the events. English
  as target needs no translation; a failed translation keeps the English text.
\<close>

definition translate_to_language ::
  "translator \<Rightarrow> pystr \<Rightarrow> string \<Rightarrow> (pystr \<times> bool) \<times> delivery_event list" where
  "translate_to_language tr english_text target_lang =
     (if lower_str target_lang = ''en'' then ((english_text, True), [])
      else
        (let translation_result = fst (translate_text tr english_text ''en'' target_lang) in
         ((if success translation_result then translated_text translation_result
           else english_text,
           success translation_result),
          [TranslateRequest english_text ''en'' target_lang])))"

text \<open>
  \<open>generate_multilingual_audio\<close>: on success the text that was spoken, otherwise
  \<open>None\<close>; with the events.
\<close>

definition generate_multilingual_audio ::
  "translator \<Rightarrow> tts_env \<Rightarrow> pystr \<Rightarrow> string \<Rightarrow> pystr option \<times> delivery_event list" where
  "generate_multilingual_audio tr tts english_text target_lang =
     (case (if lower_str target_lang \<noteq> ''en''
            then translate_to_language tr english_text target_lang
            else ((english_text, True), [])) of
        ((text_to_speak, ok), evs) \<Rightarrow>
          if \<not> ok then (None, evs)
          else
            (case text_to_speech tts text_to_speak of
               (produced, sent) \<Rightarrow>
                 (if produced then Some text_to_speak else None,
                  evs @ map (\<lambda>chunk. TtsRequest chunk target_lang) sent)))"

subsection \<open>The transcript monitor\<close>

text \<open>
  A transcript file as the monitor reads it, with the defaults of the \<open>get\<close> calls for
  absent keys: top-level \<open>success\<close>, \<open>translation.success\<close>,
  \<open>translation.translated_text\<close>, \<open>transcription.transcript\<close>, and
  \<open>transcription.language\<close>, the detected source language.
\<close>

record transcript_data =
  td_success :: bool
  td_translation_success :: bool
  td_translated_text :: pystr
  td_transcript :: pystr
  td_language :: string

definition extract_translated_text :: "transcript_data \<Rightarrow> pystr option" where
  "extract_translated_text data =
     (if \<not> td_success data then None
      else if \<not> td_translation_success data then Some (td_transcript data)
      else
        (let translated = strip (td_translated_text data) in
         if translated = [] then Some (strip (td_transcript data)) else Some translated))"

text \<open>
  What \<open>orchestrator.process_farmer_request\<close> does for the monitor: there is no
  orchestrator (initialising it failed again), it returns a text, or it raises.
\<close>

datatype orchestrator_reply = NoOrchestrator | Reply pystr | OrchestratorRaised

text \<open>
  The monitor's state: the in-memory set of processed file names, the set stored in
  \<open>processed_transcripts.json\<close>, the response files by name, the audio files copied for
  playback, and (ghost fields) the texts given to the orchestrator and the delivery
  events, oldest first.
\<close>

record monitor =
  processed :: "string set"
  processed_log :: "string set"
  responses :: "string \<rightharpoonup> pystr"
  playback :: "string set"
  orchestrated :: "pystr list"
  delivered :: "delivery_event list"

text \<open>
  What the handling of one transcript file meets: the parsed file (\<open>None\<close> when it
  cannot be read or parsed, or is empty), the orchestrator, the TTS processor (\<open>None\<close>
  when it cannot be initialised), whether the response file and the processed log can
  be written, and \<open>str.lower\<close>.
\<close>

record transcript_event =
  te_read :: "transcript_data option"
  te_orchestrator :: "pystr \<Rightarrow> orchestrator_reply"
  te_processor :: "(translator \<times> tts_env) option"
  te_response_write_ok :: bool
  te_log_write_ok :: bool
  te_lower :: "pystr \<Rightarrow> pystr"

text \<open>\<open>s.replace(old, new)\<close> for a non-empty \<open>old\<close>, and \<open>s.startswith(p)\<close>.\<close>

definition replace :: "'a list \<Rightarrow> 'a list \<Rightarrow> 'a list \<Rightarrow> 'a list" where
  "replace s old new = join new (split s old)"

definition startswith :: "'a list \<Rightarrow> 'a list \<Rightarrow> bool" where
  "startswith s p = (take (length p) s = p)"

definition save_response :: "monitor \<Rightarrow> bool \<Rightarrow> pystr \<Rightarrow> string \<Rightarrow> monitor" where
  "save_response m can_write response filename =
     (if can_write then
        m\<lparr>responses :=
            (responses m)(replace filename ''_transcript.json'' [] @ ''_response.json''
               \<mapsto> response)\<rparr>
      else m)"

definition process_with_orchestrator ::
  "monitor \<Rightarrow> transcript_event \<Rightarrow> pystr \<Rightarrow> string \<Rightarrow> pystr option \<times> monitor" where
  "process_with_orchestrator m ev translated filename =
     (case te_orchestrator ev translated of
        NoOrchestrator \<Rightarrow> (None, m)
      | OrchestratorRaised \<Rightarrow> (None, m\<lparr>orchestrated := orchestrated m @ [translated]\<rparr>)
      | Reply response \<Rightarrow>
          (let m1 = m\<lparr>orchestrated := orchestrated m @ [translated]\<rparr> in
           if startswith response (str ''Error:'') \<or>
              contains (te_lower ev response) (str ''error'') \<or>
              contains (te_lower ev response) (str ''failed'') \<or>
              length (strip response) < 10
           then (None, m1)
           else (Some response, save_response m1 (te_response_write_ok ev) response filename)))"

definition error_indicators :: "pystr list" where
  "error_indicators = [str ''error:'', str ''failed'', str ''exception'', str ''unauthorized'',
     str ''not found'', str ''invalid'', str ''timeout'']"

definition is_error_response :: "(pystr \<Rightarrow> pystr) \<Rightarrow> pystr \<Rightarrow> bool" where
  "is_error_response lower response =
     (let response_lower = strip (lower response) in
      length response_lower < 20 \<or>
      (\<exists>indicator \<in> set error_indicators. contains response_lower indicator))"

text \<open>
  \<open>_generate_audio_response\<close>. Source and target of the translation, and the language
  of the audio, are the literals \<open>"en"\<close> and \<open>"hi"\<close>; the function is given the reply,
  the farmer's text and the file name, not the transcript.
\<close>

definition generate_audio_response ::
  "monitor \<Rightarrow> transcript_event \<Rightarrow> pystr \<Rightarrow> string \<Rightarrow> monitor" where
  "generate_audio_response m ev response_text filename =
     (case te_processor ev of
        None \<Rightarrow> m
      | Some (tr, tts) \<Rightarrow>
          (let translation_result = fst (translate_text tr response_text ''en'' ''hi'');
               hindi_text = (if success translation_result
                             then translated_text translation_result else response_text)
           in
           case generate_multilingual_audio tr tts hindi_text ''hi'' of
             (result, evs) \<Rightarrow>
               (let m1 = m\<lparr>delivered :=
                              delivered m @ [TranslateRequest response_text ''en'' ''hi''] @ evs\<rparr>
                in
                case result of
                  None \<Rightarrow> m1
                | Some spoken \<Rightarrow>
                    m1\<lparr>playback :=
                         insert (replace filename ''_transcript.json'' [] @ ''_response.wav'')
                           (playback m1)\<rparr>)))"

definition save_processed_log :: "monitor \<Rightarrow> bool \<Rightarrow> monitor" where
  "save_processed_log m can_write = (if can_write then m\<lparr>processed_log := processed m\<rparr> else m)"

text \<open>
  \<open>_process_transcript_file\<close>, for the base name of the path. Every helper it calls
  catches its own exceptions, so the \<open>except\<close> of the function is reached by no path of
  the model.
\<close>

definition process_transcript_file :: "monitor \<Rightarrow> transcript_event \<Rightarrow> string \<Rightarrow> monitor" where
  "process_transcript_file m ev filename =
     (if filename \<in> processed m then m
      else
        (case te_read ev of
           None \<Rightarrow> m
         | Some data \<Rightarrow>
             (case extract_translated_text data of
                None \<Rightarrow> m
              | Some translated \<Rightarrow>
                  if translated = [] then m
                  else
                    (case process_with_orchestrator m ev translated filename of
                       (response, m1) \<Rightarrow>
                         (let m2 =
                                (case response of
                                   None \<Rightarrow> m1
                                 | Some r \<Rightarrow>
                                     if r \<noteq> [] \<and> \<not> is_error_response (te_lower ev) r
                                     then generate_audio_response m1 ev r filename
                                     else m1)
                          in
                          save_processed_log (m2\<lparr>processed := insert filename (processed m2)\<rparr>)
                            (te_log_write_ok ev))))))"

text \<open>
  \<open>TranscriptMonitor.__init__\<close>: the processed set is loaded from the log; a log that
  cannot be read gives the empty set.
\<close>

definition TranscriptMonitor_init :: "string set \<Rightarrow> bool \<Rightarrow> monitor" where
  "TranscriptMonitor_init on_disk load_ok =
     \<lparr>processed = (if load_ok then on_disk else {}), processed_log = on_disk,
      responses = Map.empty, playback = {}, orchestrated = [], delivered = []\<rparr>"

text \<open>
  Transcript events for the examples: a Tamil transcript translated to English; an
  orchestrator whose reply is that of \<open>process_farmer_request\<close> when every specialist is
  down; one whose language model is unreachable (the reply is the client's error text);
  and a translation provider that answers every chunk with one Hindi word.
\<close>

definition hindi_translator :: translator where
  "hindi_translator =
     \<lparr>translation_preference = [''google_cloud''],
      translate_client = True, deep_translator_available = False,
      provider_of = (\<lambda>name chunk src tgt.
         Translated [2344, 2350, 2360, 2381, 2340, 2375] (Some ''google_cloud'')),
      unicode_lower = ascii_lower\<rparr>"

definition tamil_transcript :: transcript_data where
  "tamil_transcript =
     \<lparr>td_success = True, td_translation_success = True,
      td_translated_text = str ''Will it rain and what are these white insects?'',
      td_transcript = [2984, 3006, 2995, 3016, 32, 2990, 2996, 3016], td_language = ''ta''\<rparr>"

definition all_down_event :: transcript_event where
  "all_down_event =
     \<lparr>te_read = Some tamil_transcript,
      te_orchestrator = (\<lambda>translated.
         Reply (fst (process_farmer_request all_down_env (rain_and_pests\<lparr>ra_query := translated\<rparr>)))),
      te_processor = Some (hindi_translator, \<lparr>tts_client = (\<lambda>t. True), tts_files_ok = True\<rparr>),
      te_response_write_ok = True, te_log_write_ok = True, te_lower = ascii_lower\<rparr>"


text \<open>
  A caller who speaks Hindi, so the detected source language is the language of the
  reply audio: the same question, transcribed in Hindi and translated to English. And
  a disk on which the processed log cannot be written.
\<close>

definition hindi_transcript :: transcript_data where
  "hindi_transcript =
     \<lparr>td_success = True, td_translation_success = True,
      td_translated_text = str ''Will it rain and what are these white insects?'',
      td_transcript = [2325, 2381, 2351, 2366, 32, 2348, 2366, 2352, 2367, 2358, 32,
                       2361, 2379, 2327, 2368], td_language = ''hi''\<rparr>"

definition hindi_caller_event :: transcript_event where
  "hindi_caller_event = all_down_event\<lparr>te_read := Some hindi_transcript\<rparr>"



section \<open>Properties of the completeness gate\<close>

lemma ready_loop_true:
  assumes "ready_loop ps st mw tw lsz sc logs = (True, logs')"
    and "\<forall>i. obs (Suc i) = st_size (ps i)"
    and "sc \<le> tw"
    and "\<forall>j\<le>sc. obs (tw - j) = Some lsz"
  shows "(\<exists>k<mw. marker_exists (ps k)) \<or>
         (\<exists>k\<le>mw. \<exists>s. k + st \<le> mw \<and> (\<forall>j\<le>st. obs (k + j) = Some s))"
  using assms
proof (induction ps st mw tw lsz sc logs rule: ready_loop.induct)
  case (1 ps st mw tw lsz sc logs)
  note obs = "1.prems"(2)
  show ?case
  proof (cases "tw < mw")
    case False
    with "1.prems"(1) show ?thesis by (simp add: ready_loop.simps)
  next
    case lt: True
    show ?thesis
    proof (cases "marker_exists (ps tw)")
      case True
      with lt show ?thesis by blast
    next
      case nomark: False
      show ?thesis
      proof (cases "st_size (ps tw)")
        case None
        with lt nomark "1.prems"(1) show ?thesis by (simp add: ready_loop.simps)
      next
        case (Some cur)
        with obs have cur: "obs (Suc tw) = Some cur" by simp
        show ?thesis
        proof (cases "cur = lsz")
          case same: True
          have win: "\<forall>j\<le>sc + 1. obs (tw + 1 - j) = Some lsz"
          proof (intro allI impI)
            fix j assume j: "j \<le> sc + 1"
            show "obs (tw + 1 - j) = Some lsz"
            proof (cases j)
              case 0
              with cur same show ?thesis by simp
            next
              case (Suc j')
              with j have "j' \<le> sc" by simp
              with "1.prems"(4) have "obs (tw - j') = Some lsz" by blast
              with Suc show ?thesis by simp
            qed
          qed
          show ?thesis
          proof (cases "st \<le> sc + 1")
            case True
            let ?k = "tw + 1 - st"
            from True "1.prems"(3) have kst: "?k + st = tw + 1" by simp
            have "\<forall>j\<le>st. obs (?k + j) = Some lsz"
            proof (intro allI impI)
              fix j assume j: "j \<le> st"
              from j True have "st - j \<le> sc + 1" by simp
              with win have "obs (tw + 1 - (st - j)) = Some lsz" by blast
              moreover from j kst have "tw + 1 - (st - j) = ?k + j" by simp
              ultimately show "obs (?k + j) = Some lsz" by (simp only:)
            qed
            moreover from kst lt have "?k + st \<le> mw" "?k \<le> mw" by simp_all
            ultimately show ?thesis by blast
          next
            case False
            with lt nomark Some same "1.prems"(1) have
              "ready_loop ps st mw (tw + 1) lsz (sc + 1) logs = (True, logs')"
              by (simp add: ready_loop.simps [of ps st mw tw])
            moreover from "1.prems"(3) have "sc + 1 \<le> tw + 1" by simp
            ultimately show ?thesis
              using "1.IH"(1) [OF lt refl refl nomark Some same _ _ obs _ win] False
              by simp
          qed
        next
          case diff: False
          with lt nomark Some "1.prems"(1) have
            "ready_loop ps st mw (tw + 1) cur 0 (logs @ [LogInfo ''File size changed''])
               = (True, logs')"
            by (simp add: ready_loop.simps [of ps st mw tw])
          moreover have "\<forall>j\<le>(0::nat). obs (tw + 1 - j) = Some cur"
            using cur by simp
          ultimately show ?thesis
            using "1.IH"(2) [OF lt refl refl nomark Some diff _ obs] by simp
        qed
      qed
    qed
  qed
qed

lemma ready_loop_false_warning:
  assumes "ready_loop ps st mw tw lsz sc logs = (False, logs')"
    and "\<forall>k<mw. st_size (ps k) \<noteq> None"
  shows "LogWarning ''File did not stabilize within max_wait'' \<in> set logs'"
  using assms
proof (induction ps st mw tw lsz sc logs rule: ready_loop.induct)
  case (1 ps st mw tw lsz sc logs)
  show ?case
  proof (cases "tw < mw")
    case False
    with "1.prems"(1) show ?thesis by (auto simp add: ready_loop.simps [of ps st mw tw])
  next
    case lt: True
    with "1.prems"(2) obtain cur where cur: "st_size (ps tw) = Some cur" by auto
    show ?thesis
    proof (cases "marker_exists (ps tw)")
      case True
      with lt "1.prems"(1) show ?thesis by (simp add: ready_loop.simps [of ps st mw tw])
    next
      case nomark: False
      show ?thesis
      proof (cases "cur = lsz")
        case same: True
        show ?thesis
        proof (cases "st \<le> sc + 1")
          case True
          with lt nomark cur same "1.prems"(1) show ?thesis
            by (simp add: ready_loop.simps [of ps st mw tw])
        next
          case False
          with lt nomark cur same "1.prems"(1) have
            "ready_loop ps st mw (tw + 1) lsz (sc + 1) logs = (False, logs')"
            by (simp add: ready_loop.simps [of ps st mw tw])
          then show ?thesis
            using "1.IH"(1) [OF lt refl refl nomark cur same _ _ "1.prems"(2)] False
            by simp
        qed
      next
        case diff: False
        with lt nomark cur "1.prems"(1) have
          "ready_loop ps st mw (tw + 1) cur 0 (logs @ [LogInfo ''File size changed''])
             = (False, logs')"
          by (simp add: ready_loop.simps [of ps st mw tw])
        then show ?thesis
          using "1.IH"(2) [OF lt refl refl nomark cur diff _ "1.prems"(2)] by simp
      qed
    qed
  qed
qed

lemma is_file_ready_true:
  assumes "is_file_ready env st mw = (True, logs)"
  shows "marker_seen env mw \<or> size_stable env st mw"
proof (cases "marker_exists (on_entry env)")
  case True
  then show ?thesis by (simp add: marker_seen_def)
next
  case False
  with assms obtain initial_size where
    init: "st_size (on_entry env) = Some initial_size" and
    loop: "ready_loop (polls env) st mw 0 initial_size 0
             ([LogInfo ''Checking file readiness''] @
              (if initial_size < 1024 then [LogInfo ''File is very small, waiting'']
               else [])) = (True, logs)"
    by (auto simp add: is_file_ready_def split: if_splits option.splits)
  have "\<forall>i. size_at env (Suc i) = st_size (polls env i)"
    by (simp add: size_at_def)
  moreover have "\<forall>j\<le>(0::nat). size_at env (0 - j) = Some initial_size"
    using init by (simp add: size_at_def)
  ultimately have
    "(\<exists>k<mw. marker_exists (polls env k)) \<or>
     (\<exists>k\<le>mw. \<exists>s. k + st \<le> mw \<and> (\<forall>j\<le>st. size_at env (k + j) = Some s))"
    using ready_loop_true [OF loop, of "size_at env"] by blast
  then show ?thesis by (auto simp add: marker_seen_def size_stable_def)
qed

lemma is_file_ready_false_warning:
  assumes "is_file_ready env st mw = (False, logs)"
    and "file_exists env"
    and "\<forall>i\<le>mw. size_at env i \<noteq> None"
  shows "LogWarning ''File did not stabilize within max_wait'' \<in> set logs"
proof -
  from assms(3) have "size_at env 0 \<noteq> None" by blast
  then obtain initial_size where init: "st_size (on_entry env) = Some initial_size"
    by (auto simp add: size_at_def)
  have readable: "\<forall>k<mw. st_size (polls env k) \<noteq> None"
  proof (intro allI impI)
    fix k assume "k < mw"
    then have "Suc k \<le> mw" by simp
    with assms(3) have "size_at env (Suc k) \<noteq> None" by blast
    then show "st_size (polls env k) \<noteq> None" by (simp add: size_at_def)
  qed
  from assms(1,2) init obtain l0 where
    "ready_loop (polls env) st mw 0 initial_size 0 l0 = (False, logs)"
    by (auto simp add: is_file_ready_def split: if_splits)
  then show ?thesis using ready_loop_false_warning readable by blast
qed

text \<open>
  C6. \<open>process_recording\<close> is called by \<open>process_audio_file\<close> only when the gate passed:
  the completion marker was seen (on entry or by one of the at most 120 one-second
  polls), or the file's size stayed the same over 5 consecutive one-second polls. A file
  with neither within the 120 polls is not processed (the call returns False and leaves
  the fetcher unchanged), and when the file stayed readable all along the warning
  "did not stabilize" is logged.
\<close>

theorem completeness_gate:
  assumes "process_audio_file s env outcome p = (r, s')"
  shows "(invocations s' \<noteq> invocations s \<longrightarrow>
            marker_seen env 120 \<or> size_stable env 5 120) \<and>
         (\<not> marker_seen env 120 \<and> \<not> size_stable env 5 120 \<longrightarrow>
            \<not> r \<and> s' = s \<and>
            (file_exists env \<and> (\<forall>i\<le>120. size_at env i \<noteq> None) \<longrightarrow>
               LogWarning ''File did not stabilize within max_wait''
                 \<in> set (snd (is_file_ready env 5 120))))"
proof -
  obtain b logs where rdy: "is_file_ready env 5 120 = (b, logs)"
    by (cases "is_file_ready env 5 120")
  have gate: "marker_seen env 120 \<or> size_stable env 5 120" if "b"
    using that rdy is_file_ready_true [of env 5 120 logs] by simp
  have "invocations s' \<noteq> invocations s \<Longrightarrow> b"
    using assms rdy by (auto simp add: process_audio_file_def split: if_splits)
  moreover have "\<not> b \<Longrightarrow> \<not> r \<and> s' = s"
    using assms rdy by (simp add: process_audio_file_def)
  moreover have "LogWarning ''File did not stabilize within max_wait'' \<in> set logs"
    if "\<not> b" "file_exists env" "\<forall>i\<le>120. size_at env i \<noteq> None"
    using that rdy is_file_ready_false_warning [of env 5 120 logs] by simp
  ultimately show ?thesis using gate rdy by auto
qed

lemma steady_env_processed:
  "process_audio_file idle_fetcher steady_env ProcSuccess ''/monitor/a001.wav'' =
     (True, idle_fetcher\<lparr>invocations := [''/monitor/a001.wav''],
        processed_files := {''/monitor/a001.wav''}\<rparr>)"
  by (simp add: process_audio_file_def is_file_ready_def steady_env_def idle_fetcher_def
      ready_loop.simps)

lemma growing_env_unstable:
  "\<not> marker_seen growing_env 120 \<and> \<not> size_stable growing_env 5 120"
proof -
  have "\<not> size_stable growing_env 5 120"
  proof
    assume "size_stable growing_env 5 120"
    then obtain k s where w: "\<forall>j\<le>5. size_at growing_env (k + j) = Some s"
      by (auto simp add: size_stable_def)
    have "(1::nat) \<le> 5" "(2::nat) \<le> 5" by simp_all
    with w have "size_at growing_env (k + 1) = Some s" "size_at growing_env (k + 2) = Some s"
      by blast+
    then show False by (simp add: size_at_def growing_env_def)
  qed
  then show ?thesis by (simp add: marker_seen_def growing_env_def)
qed

theorem completeness_gate_witness:
  "size_stable steady_env 5 120 \<and>
   process_audio_file idle_fetcher growing_env ProcSuccess ''/monitor/a002.wav''
     = (False, idle_fetcher) \<and>
   LogWarning ''File did not stabilize within max_wait''
     \<in> set (snd (is_file_ready growing_env 5 120))"
proof -
  have "size_stable steady_env 5 120"
    using completeness_gate [OF steady_env_processed]
    by (simp add: idle_fetcher_def marker_seen_def steady_env_def)
  moreover obtain r s' where
    run: "process_audio_file idle_fetcher growing_env ProcSuccess ''/monitor/a002.wav''
            = (r, s')"
    by (cases "process_audio_file idle_fetcher growing_env ProcSuccess ''/monitor/a002.wav''")
  have "file_exists growing_env \<and> (\<forall>i\<le>120. size_at growing_env i \<noteq> None)"
    by (simp add: growing_env_def size_at_def)
  with completeness_gate [OF run] growing_env_unstable have
    "\<not> r \<and> s' = idle_fetcher \<and>
     LogWarning ''File did not stabilize within max_wait''
       \<in> set (snd (is_file_ready growing_env 5 120))"
    by blast
  ultimately show ?thesis using run by simp
qed

section \<open>Properties of the processed-id set\<close>

lemma process_audio_file_effect:
  assumes "process_audio_file s env outcome p = (r, s')"
  shows "(invocations s' = invocations s \<or> invocations s' = invocations s @ [p]) \<and>
         processed_files s' = (if r then insert p (processed_files s) else processed_files s) \<and>
         persisted s' = persisted s \<and> has_processor s' = has_processor s \<and>
         (r \<longleftrightarrow> fst (is_file_ready env 5 120) \<and> has_processor s \<and> outcome = ProcSuccess)"
  using assms
  by (cases outcome) (auto simp add: process_audio_file_def Let_def split: if_splits)

lemma process_new_files_effect:
  assumes "process_new_files s sc ps = (n, s')"
  shows "(q \<notin> set ps \<longrightarrow> count_list (invocations s') q = count_list (invocations s) q) \<and>
         processed_files s \<subseteq> processed_files s' \<and> persisted s' = persisted s"
  using assms
proof (induction ps arbitrary: s n s')
  case Nil
  then show ?case by auto
next
  case (Cons p ps)
  obtain ok s1 where step: "process_audio_file s (envs sc p) (outcomes sc p) p = (ok, s1)"
    by (cases "process_audio_file s (envs sc p) (outcomes sc p) p")
  obtain m s2 where rest: "process_new_files s1 sc ps = (m, s2)"
    by (cases "process_new_files s1 sc ps")
  from Cons.prems step rest have s': "s2 = s'" by simp
  note e = process_audio_file_effect [OF step]
  have "q \<noteq> p \<Longrightarrow> count_list (invocations s1) q = count_list (invocations s) q"
    using e by auto
  moreover have "processed_files s \<subseteq> processed_files s1" using e by auto
  moreover have "persisted s1 = persisted s" using e by simp
  ultimately show ?case using Cons.IH [OF rest] s' by auto
qed

lemma fetch_files_once_effect:
  assumes "fetch_files_once s sc = (n, s')"
  shows "(q \<in> processed_files s \<longrightarrow>
            count_list (invocations s') q = count_list (invocations s) q) \<and>
         processed_files s \<subseteq> processed_files s' \<and>
         (persisted s' = persisted s \<or> persisted s' = processed_files s')"
proof (cases "find_new_audio_files s (listing sc) = []")
  case True
  with assms show ?thesis by (simp add: fetch_files_once_def)
next
  case False
  obtain m s1 where loop:
    "process_new_files s sc (find_new_audio_files s (listing sc)) = (m, s1)"
    by (cases "process_new_files s sc (find_new_audio_files s (listing sc))")
  with assms False have s': "s' = save_processed_files s1 (write_ok sc)"
    by (simp add: fetch_files_once_def)
  have "q \<in> processed_files s \<Longrightarrow> q \<notin> set (find_new_audio_files s (listing sc))"
    by (auto simp add: find_new_audio_files_def)
  with process_new_files_effect [OF loop, of q] s' show ?thesis
    by (auto simp add: save_processed_files_def)
qed

lemma run_continuous_memory:
  "(q \<in> processed_files s \<longrightarrow>
      count_list (invocations (run_continuous s scs)) q = count_list (invocations s) q) \<and>
   processed_files s \<subseteq> processed_files (run_continuous s scs)"
proof (induction scs arbitrary: s)
  case Nil
  then show ?case by simp
next
  case (Cons sc scs)
  obtain n s1 where step: "fetch_files_once s sc = (n, s1)"
    by (cases "fetch_files_once s sc")
  note e = fetch_files_once_effect [OF step, of q]
  from Cons.IH [of s1] e step show ?case by auto
qed

lemma run_continuous_effect:
  assumes "persisted s \<subseteq> processed_files s"
  shows "(q \<in> processed_files s \<longrightarrow>
            count_list (invocations (run_continuous s scs)) q = count_list (invocations s) q) \<and>
         processed_files s \<subseteq> processed_files (run_continuous s scs) \<and>
         persisted s \<subseteq> persisted (run_continuous s scs) \<and>
         persisted (run_continuous s scs) \<subseteq> processed_files (run_continuous s scs)"
  using assms
proof (induction scs arbitrary: s)
  case Nil
  then show ?case by simp
next
  case (Cons sc scs)
  obtain n s1 where step: "fetch_files_once s sc = (n, s1)"
    by (cases "fetch_files_once s sc")
  note e = fetch_files_once_effect [OF step, of q]
  from e Cons.prems have inv: "persisted s1 \<subseteq> processed_files s1" by auto
  from e Cons.prems have mono: "persisted s \<subseteq> persisted s1" by auto
  from Cons.IH [OF inv] e mono step show ?case by auto
qed

lemma process_new_files_invocations:
  "invocations (snd (process_new_files s sc ps)) =
     invocations s @
     filter (\<lambda>p. fst (is_file_ready (envs sc p) 5 120) \<and> has_processor s) ps \<and>
   has_processor (snd (process_new_files s sc ps)) = has_processor s"
proof (induction ps arbitrary: s)
  case Nil
  then show ?case by simp
next
  case (Cons p ps)
  obtain ok s1 where step: "process_audio_file s (envs sc p) (outcomes sc p) p = (ok, s1)"
    by (cases "process_audio_file s (envs sc p) (outcomes sc p) p")
  obtain m s2 where rest: "process_new_files s1 sc ps = (m, s2)"
    by (cases "process_new_files s1 sc ps")
  have hp: "has_processor s1 = has_processor s"
    using process_audio_file_effect [OF step] by simp
  have inv: "invocations s1 =
      invocations s @ (if fst (is_file_ready (envs sc p) 5 120) \<and> has_processor s then [p] else [])"
    using step
    by (cases "outcomes sc p") (auto simp add: process_audio_file_def Let_def split: if_splits)
  from Cons.IH [of s1] rest have
    "invocations s2 = invocations s1 @
       filter (\<lambda>p. fst (is_file_ready (envs sc p) 5 120) \<and> has_processor s1) ps \<and>
     has_processor s2 = has_processor s1"
    by simp
  with step rest hp inv show ?case by simp
qed

lemma fetch_files_once_invokes:
  assumes "e \<in> set (listing sc)" and "entry_is_file e" and "is_audio_file e"
    and "entry_path e \<notin> processed_files s"
    and "fst (is_file_ready (envs sc (entry_path e)) 5 120)" and "has_processor s"
  shows "entry_path e \<in>
           set (drop (length (invocations s)) (invocations (snd (fetch_files_once s sc))))"
proof -
  let ?new = "find_new_audio_files s (listing sc)"
  from assms(1-4) have mem: "entry_path e \<in> set ?new"
    by (auto simp add: find_new_audio_files_def)
  then have ne: "?new \<noteq> []" by auto
  obtain m s1 where loop: "process_new_files s sc ?new = (m, s1)"
    by (cases "process_new_files s sc ?new")
  with ne have "invocations (snd (fetch_files_once s sc)) = invocations s1"
    by (simp add: fetch_files_once_def save_processed_files_def)
  moreover from process_new_files_invocations [of s sc ?new] loop have
    "invocations s1 = invocations s @
       filter (\<lambda>p. fst (is_file_ready (envs sc p) 5 120) \<and> has_processor s) ?new"
    by simp
  ultimately show ?thesis using mem assms(5,6) by simp
qed

text \<open>
  C3, as the code has it. Once a file id is in the processed set, no scan of the run
  calls \<open>process_recording\<close> for it again. An id enters the set exactly when the file
  was ready, the processor exists and \<open>process_recording\<close> succeeded; otherwise the set
  is left as it was, and any scan that finds the unrecorded file ready (with a
  processor) calls \<open>process_recording\<close> for it again. The set in memory only grows. A
  scan leaves the stored set as it was or overwrites it with the set in memory, so the
  stored set only grows when it was within the set in memory to begin with (as after a
  successful load at start-up).
\<close>

theorem processed_once_after_success:
  "(p \<in> processed_files s \<longrightarrow>
      count_list (invocations (run_continuous s scs)) p = count_list (invocations s) p) \<and>
   processed_files s \<subseteq> processed_files (run_continuous s scs) \<and>
   (persisted s \<subseteq> processed_files s \<longrightarrow> persisted s \<subseteq> persisted (run_continuous s scs)) \<and>
   (persisted (snd (fetch_files_once s sc)) = persisted s \<or>
    persisted (snd (fetch_files_once s sc)) = processed_files (snd (fetch_files_once s sc))) \<and>
   (process_audio_file s env outcome p = (r, s') \<longrightarrow>
      (r \<longleftrightarrow> fst (is_file_ready env 5 120) \<and> has_processor s \<and> outcome = ProcSuccess) \<and>
      processed_files s' = (if r then insert p (processed_files s) else processed_files s)) \<and>
   (e \<in> set (listing sc) \<and> entry_is_file e \<and> is_audio_file e \<and>
    entry_path e \<notin> processed_files s \<and>
    fst (is_file_ready (envs sc (entry_path e)) 5 120) \<and> has_processor s \<longrightarrow>
      entry_path e \<in>
        set (drop (length (invocations s)) (invocations (snd (fetch_files_once s sc)))))"
proof -
  have once: "count_list (invocations (run_continuous s scs)) p = count_list (invocations s) p"
    if "p \<in> processed_files s"
    using that run_continuous_memory [of p s scs] by simp
  have mono: "processed_files s \<subseteq> processed_files (run_continuous s scs)"
    using run_continuous_memory [of p s scs] by simp
  have disk: "persisted s \<subseteq> persisted (run_continuous s scs)"
    if "persisted s \<subseteq> processed_files s"
    using run_continuous_effect [OF that, of p scs] by simp
  obtain n s1 where f: "fetch_files_once s sc = (n, s1)" by (cases "fetch_files_once s sc")
  have save: "persisted (snd (fetch_files_once s sc)) = persisted s \<or>
    persisted (snd (fetch_files_once s sc)) = processed_files (snd (fetch_files_once s sc))"
    using fetch_files_once_effect [OF f, of p] f by simp
  have step: "(r \<longleftrightarrow> fst (is_file_ready env 5 120) \<and> has_processor s \<and> outcome = ProcSuccess) \<and>
      processed_files s' = (if r then insert p (processed_files s) else processed_files s)"
    if "process_audio_file s env outcome p = (r, s')"
    using process_audio_file_effect [OF that] by simp
  have again: "entry_path e \<in>
        set (drop (length (invocations s)) (invocations (snd (fetch_files_once s sc))))"
    if "e \<in> set (listing sc) \<and> entry_is_file e \<and> is_audio_file e \<and>
        entry_path e \<notin> processed_files s \<and>
        fst (is_file_ready (envs sc (entry_path e)) 5 120) \<and> has_processor s"
    using that fetch_files_once_invokes [of e sc s] by simp
  from once mono disk save step again show ?thesis by blast
qed

lemma succeeding_scan_run:
  "snd (fetch_files_once (AudioFetcher_init {} True True) succeeding_scan) =
     \<lparr>processed_files = {''/monitor/a001.wav''}, persisted = {''/monitor/a001.wav''},
      has_processor = True, invocations = [''/monitor/a001.wav'']\<rparr>"
  by (simp add: fetch_files_once_def find_new_audio_files_def succeeding_scan_def
      failing_scan_def is_audio_file_def audio_formats_def AudioFetcher_init_def
      process_audio_file_def is_file_ready_def marked_env_def save_processed_files_def)

theorem processed_once_after_success_witness:
  "count_list
     (invocations
        (run_continuous (snd (fetch_files_once (AudioFetcher_init {} True True) succeeding_scan))
           [succeeding_scan, failing_scan, succeeding_scan]))
     ''/monitor/a001.wav'' = 1 \<and>
   ''/monitor/a001.wav'' \<in>
     set (invocations (snd (fetch_files_once
            (snd (fetch_files_once (AudioFetcher_init {} True True) failing_scan)) failing_scan)))"
proof -
  let ?s = "snd (fetch_files_once (AudioFetcher_init {} True True) succeeding_scan)"
  let ?t = "snd (fetch_files_once (AudioFetcher_init {} True True) failing_scan)"
  let ?e = "\<lparr>entry_path = ''/monitor/a001.wav'', entry_is_file = True, entry_suffix = ''.wav''\<rparr>"
  have "''/monitor/a001.wav'' \<in> processed_files ?s" by (simp add: succeeding_scan_run)
  with processed_once_after_success
    [where s = ?s and p = "''/monitor/a001.wav''"
       and scs = "[succeeding_scan, failing_scan, succeeding_scan]"]
  have first: "count_list
     (invocations (run_continuous ?s [succeeding_scan, failing_scan, succeeding_scan]))
     ''/monitor/a001.wav'' = 1"
    by (simp add: succeeding_scan_run)
  have t: "?t = \<lparr>processed_files = {}, persisted = {}, has_processor = True,
                  invocations = [''/monitor/a001.wav'']\<rparr>"
    by (simp add: fetch_files_once_def find_new_audio_files_def failing_scan_def
        is_audio_file_def audio_formats_def AudioFetcher_init_def
        process_audio_file_def is_file_ready_def marked_env_def save_processed_files_def)
  have "?e \<in> set (listing failing_scan) \<and> entry_is_file ?e \<and> is_audio_file ?e \<and>
        entry_path ?e \<notin> processed_files ?t \<and>
        fst (is_file_ready (envs failing_scan (entry_path ?e)) 5 120) \<and> has_processor ?t"
    unfolding t
    by (simp add: failing_scan_def is_audio_file_def audio_formats_def is_file_ready_def
        marked_env_def)
  with processed_once_after_success [where s = ?t and sc = failing_scan and e = ?e]
  have "entry_path ?e \<in>
        set (drop (length (invocations ?t)) (invocations (snd (fetch_files_once ?t failing_scan))))"
    by blast
  then have "''/monitor/a001.wav'' \<in> set (invocations (snd (fetch_files_once ?t failing_scan)))"
    by (auto dest: in_set_dropD)
  with first show ?thesis by simp
qed

text \<open>
  The claim as stated fails: two scans of a run that both find \<open>/monitor/a001.wav\<close>
  ready, with \<open>process_recording\<close> failing on it, call \<open>process_recording\<close> twice for
  that id, and the id is in no processed set afterwards. And a fetcher that could not
  load the stored set overwrites it at its first save: the id stored before is gone.
\<close>

theorem failed_file_processed_twice:
  "count_list
     (invocations (run_continuous (AudioFetcher_init {} True True) [failing_scan, failing_scan]))
     ''/monitor/a001.wav'' = 2 \<and>
   processed_files (run_continuous (AudioFetcher_init {} True True) [failing_scan, failing_scan])
     = {} \<and>
   persisted (AudioFetcher_init {''/monitor/old.wav''} False True) = {''/monitor/old.wav''} \<and>
   persisted (run_continuous (AudioFetcher_init {''/monitor/old.wav''} False True)
                [succeeding_scan]) = {''/monitor/a001.wav''}"
  by (simp add: fetch_files_once_def find_new_audio_files_def failing_scan_def
      succeeding_scan_def is_audio_file_def audio_formats_def AudioFetcher_init_def
      process_audio_file_def is_file_ready_def marked_env_def save_processed_files_def)

section \<open>Properties of the recording pipeline\<close>

subsection \<open>The TTS chunk budget\<close>

lemma encode_len_append: "encode_len (xs @ ys) = encode_len xs + encode_len ys"
  by (simp add: encode_len_def)

lemma encode_len_replicate_x: "encode_len (replicate n 120) = n"
  by (induction n) (simp_all add: encode_len_def utf8_len_def)

lemma split_acc_replicate_x:
  "split_acc (str ''. '') cur (replicate n 120) = [rev cur @ replicate n 120]"
proof (induction n arbitrary: cur)
  case 0
  then show ?case by simp
next
  case (Suc n)
  have "split_acc (str ''. '') cur (120 # replicate n 120) =
        split_acc (str ''. '') (120 # cur) (replicate n 120)"
    by (simp add: str_def)
  with Suc [of "120 # cur"] show ?case by simp
qed

lemma split_a_then_x:
  "split (str ''a. '' @ replicate n 120) (str ''. '') = [str ''a'', replicate n 120]"
proof -
  have "split_acc (str ''. '') [] (97 # 46 # 32 # replicate n 120) =
        [97] # split_acc (str ''. '') [] (replicate n 120)"
    by (simp add: str_def)
  then show ?thesis
    by (simp add: split_def split_acc_replicate_x) (simp add: str_def)
qed

lemma strip_replicate_x: "strip (replicate n 120) = replicate n 120"
proof -
  have "dropWhile isspace (replicate n 120) = replicate n 120"
    by (cases n) (simp_all add: isspace_def)
  then show ?thesis by (simp add: strip_def)
qed

lemma strip_a_period: "strip (str ''a. '') = str ''a.''"
  by (simp add: strip_def str_def isspace_def)

text \<open>
  A short sentence followed by one long run of the letter x that has no space and no
  full stop: the run becomes a chunk of its own, whatever its length.
\<close>

lemma chunk_text_for_tts_long_run:
  assumes "3 \<le> max_bytes" and "max_bytes < n + 3"
  shows "chunk_text_for_tts (str ''a. '' @ replicate n 120) max_bytes =
           [str ''a.'', replicate n 120]"
proof -
  from assms have n: "0 < n" by simp
  have ne: "str ''a'' \<noteq> replicate n 120"
    by (cases n) (simp_all add: str_def)
  have len_a: "encode_len (str ''a. '') = 3"
    by (simp add: encode_len_def str_def utf8_len_def)
  have first: "chunk_sentences max_bytes (replicate n 120) [str ''a'', replicate n 120] ([], [])
      = chunk_sentences max_bytes (replicate n 120) [replicate n 120] ([], str ''a. '')"
  proof -
    have "str ''a'' @ str ''. '' = str ''a. ''" by (simp add: str_def)
    with ne len_a assms(1) show ?thesis by (simp add: Let_def)
  qed
  have nonempty: "str ''a. '' \<noteq> []" by (simp add: str_def)
  have second: "chunk_sentences max_bytes (replicate n 120) [replicate n 120] ([], str ''a. '')
      = ([str ''a.''], replicate n 120)"
    using assms(2) nonempty
    by (simp add: Let_def encode_len_append len_a encode_len_replicate_x strip_a_period)
  have total: "\<not> encode_len (str ''a. '' @ replicate n 120) \<le> max_bytes"
    using assms(2) by (simp add: encode_len_append len_a encode_len_replicate_x)
  from n have "replicate n (120::nat) \<noteq> []" by simp
  with total first second show ?thesis
    by (simp add: chunk_text_for_tts_def split_a_then_x strip_replicate_x)
qed

text \<open>
  C4 at a failing input: for the text \<open>a. \<close> followed by 4501 letters x (4504 bytes),
  \<open>_chunk_text_for_tts\<close> returns the two chunks \<open>a.\<close> and the 4501 letters, the second of
  4501 bytes, and \<open>text_to_speech\<close> sends both to the provider.
\<close>

theorem tts_chunk_over_budget:
  "chunk_text_for_tts (str ''a. '' @ replicate 4501 120) 4500
     = [str ''a.'', replicate 4501 120] \<and>
   map encode_len (chunk_text_for_tts (str ''a. '' @ replicate 4501 120) 4500) = [2, 4501] \<and>
   snd (text_to_speech \<lparr>tts_client = (\<lambda>t. True), tts_files_ok = True\<rparr>
          (str ''a. '' @ replicate 4501 120))
     = [str ''a.'', replicate 4501 120]"
proof -
  have c: "chunk_text_for_tts (str ''a. '' @ replicate 4501 120) 4500
             = [str ''a.'', replicate 4501 120]"
    by (rule chunk_text_for_tts_long_run) simp_all
  have "encode_len (str ''a.'') = 2" by (simp add: encode_len_def str_def utf8_len_def)
  with c show ?thesis by (simp add: text_to_speech_def encode_len_replicate_x)
qed

theorem tts_chunk_over_budget_witness:
  "length (chunk_text_for_tts (str ''a. '' @ replicate 4501 120) 4500) = 2 \<and>
   encode_len (chunk_text_for_tts (str ''a. '' @ replicate 4501 120) 4500 ! 1) = 4501"
  using tts_chunk_over_budget by (simp add: encode_len_replicate_x)

subsection \<open>Translation between equal languages\<close>

subsection \<open>The transcript artifact\<close>

lemma process_recording_cases:
  assumes "process_recording tr cfg inp dir = (res, dir')"
  shows "(\<exists>e. res = Inl e \<and> dir' = dir) \<or>
         (\<exists>a. res = Inr a \<and> dir' = dir(rec_stem inp @ ''_transcript.json'' \<mapsto> a) \<and>
              artifact_success a \<and> transcription a = rec_stt inp \<and>
              transcript (rec_stt inp) \<noteq> [] \<and> rec_write_ok inp \<and>
              fst (is_file_ready (rec_env inp) 5 120) \<and>
              (rec_suffix inp = ''.wav'' \<or> rec_convert_ok inp))"
  using assms
  by (auto simp add: process_recording_def Let_def split: if_splits)

text \<open>
  C5, as the code has it. A transcript artifact is written only when transcription gave
  a non-empty transcript, and every artifact written has its top-level \<open>success\<close> true,
  whatever the translation's own \<open>success\<close>. When every speech-to-text path failed (the
  transcript is empty) \<open>process_recording\<close> returns an error dictionary and writes
  nothing. When the file is ready, converted, transcribed and the transcript file can be
  written, the artifact is written, with the transcription as it was returned.
\<close>

theorem transcript_artifact_success:
  assumes "process_recording tr cfg inp dir = (res, dir')"
  shows "(\<forall>name a. dir' name = Some a \<and> dir name \<noteq> Some a \<longrightarrow>
            name = rec_stem inp @ ''_transcript.json'' \<and> res = Inr a \<and>
            artifact_success a \<and> transcript (transcription a) \<noteq> []) \<and>
         (transcript (rec_stt inp) = [] \<longrightarrow> dir' = dir \<and> (\<exists>e. res = Inl e)) \<and>
         (fst (is_file_ready (rec_env inp) 5 120) \<and>
          (rec_suffix inp = ''.wav'' \<or> rec_convert_ok inp) \<and>
          transcript (rec_stt inp) \<noteq> [] \<and> rec_write_ok inp \<longrightarrow>
            (\<exists>a. res = Inr a \<and> dir' (rec_stem inp @ ''_transcript.json'') = Some a \<and>
                 artifact_success a \<and> transcription a = rec_stt inp))"
proof -
  note c = process_recording_cases [OF assms]
  have p1: "name = rec_stem inp @ ''_transcript.json'' \<and> res = Inr a \<and>
        artifact_success a \<and> transcript (transcription a) \<noteq> []"
    if "dir' name = Some a \<and> dir name \<noteq> Some a" for name a
    using c that by (auto split: if_splits)
  have p2: "dir' = dir \<and> (\<exists>e. res = Inl e)" if "transcript (rec_stt inp) = []"
    using c that by auto
  have p3: "\<exists>a. res = Inr a \<and> dir' (rec_stem inp @ ''_transcript.json'') = Some a \<and>
                 artifact_success a \<and> transcription a = rec_stt inp"
    if "fst (is_file_ready (rec_env inp) 5 120) \<and>
          (rec_suffix inp = ''.wav'' \<or> rec_convert_ok inp) \<and>
          transcript (rec_stt inp) \<noteq> [] \<and> rec_write_ok inp"
    using assms that by (auto simp add: process_recording_def Let_def)
  from p1 p2 p3 show ?thesis by blast
qed

lemma tamil_translation_fails:
  "translate_text offline_translator (transcript tamil_transcription) ''ta'' ''en'' =
     (\<lparr>translated_text = transcript tamil_transcription, source_language = ''ta'',
       target_language = ''en'', success = False, service = None, fallback = False,
       error = Some ''Translation service unavailable, used original text''\<rparr>, [])"
  by (simp add: translate_text_def offline_translator_def tamil_transcription_def
      translation_services_def strip_def isspace_def get_offline_translation_def
      simple_translations_def)

lemma tamil_recording_run:
  "process_recording offline_translator default_config tamil_recording Map.empty =
     (Inr \<lparr>file_path = ''/monitor/a001.wav'', transcription = tamil_transcription,
           translation = fst (translate_text offline_translator
                                (transcript tamil_transcription) ''ta'' ''en''),
           artifact_success = True\<rparr>,
      [''a001_transcript.json'' \<mapsto>
         \<lparr>file_path = ''/monitor/a001.wav'', transcription = tamil_transcription,
          translation = fst (translate_text offline_translator
                               (transcript tamil_transcription) ''ta'' ''en''),
          artifact_success = True\<rparr>])"
proof -
  have "transcript tamil_transcription \<noteq> []" "language tamil_transcription = ''ta''"
    by (simp_all add: tamil_transcription_def)
  then show ?thesis
    by (simp add: process_recording_def tamil_recording_def default_config_def
        is_file_ready_def Let_def)
qed

theorem transcript_artifact_success_witness:
  "\<exists>a. fst (process_recording offline_translator default_config tamil_recording Map.empty)
          = Inr a \<and> artifact_success a \<and> transcription a = tamil_transcription"
proof -
  obtain res dir' where
    run: "process_recording offline_translator default_config tamil_recording Map.empty
            = (res, dir')"
    by (cases "process_recording offline_translator default_config tamil_recording Map.empty")
  have "fst (is_file_ready (rec_env tamil_recording) 5 120) \<and>
        (rec_suffix tamil_recording = ''.wav'' \<or> rec_convert_ok tamil_recording) \<and>
        transcript (rec_stt tamil_recording) \<noteq> [] \<and> rec_write_ok tamil_recording"
    by (simp add: tamil_recording_def tamil_transcription_def is_file_ready_def)
  with transcript_artifact_success [OF run] run show ?thesis
    by (auto simp add: tamil_recording_def)
qed

text \<open>
  The claim as stated fails twice. With no translation service reachable and a Tamil
  transcript (which the offline phrase table does not cover), translation fails, yet the
  artifact is written with top-level \<open>success\<close> true. With an empty transcript, no
  artifact is written at all.
\<close>

theorem failed_translation_still_success:
  "(\<exists>a. process_recording offline_translator default_config tamil_recording Map.empty
          = (Inr a, [''a001_transcript.json'' \<mapsto> a]) \<and>
        \<not> success (translation a) \<and> artifact_success a) \<and>
   process_recording offline_translator default_config silent_recording Map.empty
     = (Inl ''No transcript generated'', Map.empty)"
proof -
  have "process_recording offline_translator default_config silent_recording Map.empty
          = (Inl ''No transcript generated'', Map.empty)"
    by (simp add: process_recording_def silent_recording_def tamil_recording_def
        is_file_ready_def)
  then show ?thesis
    using tamil_recording_run by (simp add: tamil_translation_fails)
qed

section \<open>Properties of the weather date validation\<close>

text \<open>
  C7 at a failing input. Today is 2026-11-03 and the extracted range is 2026-11-23 to
  2026-11-28. The start is kept, the end is first cut to today + 16 = 2026-11-19, which
  is not after the start, and is then set to start + 7 = 2026-11-30 (ordinal 739950):
  later than today + 16.
\<close>

theorem validated_end_beyond_horizon:
  "validate_date_parameters 739923 sowing_params =
     Inr (sowing_params\<lparr>end_date := DateString 739950\<rparr>) \<and>
   extract_weather_parameters 739923 None (Parameters sowing_params) =
     sowing_params\<lparr>end_date := DateString 739950\<rparr> \<and>
   (739950::int) > 739923 + 16"
  by (simp add: validate_date_parameters_def extract_weather_parameters_def sowing_params_def
      date_max_def)

theorem validated_end_beyond_horizon_witness:
  "end_date (extract_weather_parameters 739923 None (Parameters sowing_params))
     = DateString 739950"
  using validated_end_beyond_horizon by simp

section \<open>Properties of the orchestrator\<close>

lemma map_of_dict_set: "map_of (dict_set k v al) = (map_of al)(k \<mapsto> v)"
  by (induction al) auto

lemma call_required_agents_events:
  "events (snd (call_required_agents env q ns st)) =
     events st @
     call_pairs (\<lambda>n. specialist env n q ''specific'' \<noteq> AgentRaised)
       (filter (\<lambda>n. n \<in> set known_agents) ns)"
proof (induction ns arbitrary: st)
  case Nil
  then show ?case by simp
next
  case (Cons n ns)
  show ?case
  proof (cases "n \<in> set known_agents")
    case False
    with Cons show ?thesis by simp
  next
    case True
    then show ?thesis
      using Cons by (cases "specialist env n q ''specific''") simp_all
  qed
qed

lemma call_required_agents_ok:
  "fst (call_required_agents env q ns st) \<longleftrightarrow>
     (\<forall>n\<in>set ns. n \<in> set known_agents \<longrightarrow> specialist env n q ''specific'' \<noteq> AgentRaised)"
proof (induction ns arbitrary: st)
  case Nil
  then show ?case by simp
next
  case (Cons n ns)
  show ?case
  proof (cases "n \<in> set known_agents")
    case False
    with Cons show ?thesis by simp
  next
    case True
    then show ?thesis
      using Cons by (cases "specialist env n q ''specific''") simp_all
  qed
qed

lemma gather_from_events:
  "snd (gather_from env ns (found, evs)) =
     evs @ call_pairs (\<lambda>n. specialist env n (generic_question n) ''generic'' \<noteq> AgentRaised) ns"
proof (induction ns arbitrary: found evs)
  case Nil
  then show ?case by simp
next
  case (Cons n ns)
  then show ?case
    by (cases "specialist env n (generic_question n) ''generic''") simp_all
qed

lemma in_flight_call_pairs:
  assumes "in_flight t 0 \<le> 1"
  shows "in_flight (call_pairs returns ns @ t) 0 \<le> 1"
  using assms by (induction ns) simp_all

lemma in_flight_raised:
  "in_flight (call_pairs returns ns) 0 \<le> 1"
  using in_flight_call_pairs [of "[]" returns ns] by simp

lemma in_flight_then_synthesis:
  "in_flight (call_pairs returns ns @ (if c then [SynthesisBegan] else [])) 0 \<le> 1"
proof (cases c)
  case True
  have "in_flight [SynthesisBegan] 0 \<le> 1" by simp
  from in_flight_call_pairs [OF this] True show ?thesis by simp
next
  case False
  with in_flight_raised show ?thesis by simp
qed

lemma execute_specific_pipeline_events:
  "snd (execute_specific_pipeline env q p d) =
     call_pairs (\<lambda>n. specialist env n q ''specific'' \<noteq> AgentRaised)
       (filter (\<lambda>n. n \<in> set known_agents) (required_agents d)) @
     (if \<forall>n\<in>set (required_agents d).
            n \<in> set known_agents \<longrightarrow> specialist env n q ''specific'' \<noteq> AgentRaised
      then [SynthesisBegan] else [])"
proof -
  let ?st0 = "\<lparr>agent_responses = [], agents_used = [], events = []\<rparr>"
  obtain ok st where run: "call_required_agents env q (required_agents d) ?st0 = (ok, st)"
    by (cases "call_required_agents env q (required_agents d) ?st0")
  from run call_required_agents_events [of env q "required_agents d" ?st0]
  have ev: "events st = call_pairs (\<lambda>n. specialist env n q ''specific'' \<noteq> AgentRaised)
              (filter (\<lambda>n. n \<in> set known_agents) (required_agents d))"
    by simp
  from run call_required_agents_ok [of env q "required_agents d" ?st0]
  have ok: "ok \<longleftrightarrow> (\<forall>n\<in>set (required_agents d).
            n \<in> set known_agents \<longrightarrow> specialist env n q ''specific'' \<noteq> AgentRaised)"
    by simp
  show ?thesis
  proof (cases ok)
    case True
    with run have run': "call_required_agents env q (required_agents d) ?st0 = (True, st)"
      by simp
    from True ok have all: "\<forall>n\<in>set (required_agents d).
            n \<in> set known_agents \<longrightarrow> specialist env n q ''specific'' \<noteq> AgentRaised"
      by simp
    show ?thesis
      unfolding execute_specific_pipeline_def run' using ev all by simp
  next
    case False
    with run have run': "call_required_agents env q (required_agents d) ?st0 = (False, st)"
      by simp
    from False ok have notall: "\<not> (\<forall>n\<in>set (required_agents d).
            n \<in> set known_agents \<longrightarrow> specialist env n q ''specific'' \<noteq> AgentRaised)"
      by simp
    show ?thesis
      unfolding execute_specific_pipeline_def run' using ev notall by simp
  qed
qed

lemma execute_generic_pipeline_events:
  "snd (execute_generic_pipeline env q p) =
     call_pairs (\<lambda>n. specialist env n (generic_question n) ''generic'' \<noteq> AgentRaised)
       known_agents @ [SynthesisBegan]"
proof -
  obtain i evs where g: "gather_from env known_agents ([], []) = (i, evs)"
    by (cases "gather_from env known_agents ([], [])")
  with gather_from_events [of env known_agents "[]" "[]"]
  have "evs = call_pairs (\<lambda>n. specialist env n (generic_question n) ''generic'' \<noteq> AgentRaised)
                known_agents"
    by simp
  with g show ?thesis
    by (simp add: execute_generic_pipeline_def gather_comprehensive_intelligence_def)
qed

text \<open>
  C2, as the code has it. Both pipelines call the specialists one after the other, in
  the order listed (generic: weather, soil, pest, scheme): each call returns before the
  next is made, so at no moment is more than one call in flight. Synthesis begins after
  the last dispatched specialist has returned.
\<close>

theorem specialists_called_in_sequence:
  "in_flight (snd (process_farmer_request env ra)) 0 \<le> 1 \<and>
   snd (execute_specific_pipeline env q p d) =
     call_pairs (\<lambda>n. specialist env n q ''specific'' \<noteq> AgentRaised)
       (filter (\<lambda>n. n \<in> set known_agents) (required_agents d)) @
     (if \<forall>n\<in>set (required_agents d).
            n \<in> set known_agents \<longrightarrow> specialist env n q ''specific'' \<noteq> AgentRaised
      then [SynthesisBegan] else []) \<and>
   snd (execute_generic_pipeline env q p) =
     call_pairs (\<lambda>n. specialist env n (generic_question n) ''generic'' \<noteq> AgentRaised)
       known_agents @ [SynthesisBegan]"
proof -
  have "in_flight (snd (process_farmer_request env ra)) 0 \<le> 1"
  proof (cases "pipeline_type (ra_decision ra) = ''specific''")
    case True
    obtain r evs where e: "execute_specific_pipeline env (ra_query ra) (ra_profile ra)
                             (ra_decision ra) = (r, evs)"
      by (cases "execute_specific_pipeline env (ra_query ra) (ra_profile ra) (ra_decision ra)")
    from execute_specific_pipeline_events [of env "ra_query ra" "ra_profile ra" "ra_decision ra"]
    have "in_flight (snd (execute_specific_pipeline env (ra_query ra) (ra_profile ra)
                            (ra_decision ra))) 0 \<le> 1"
      by (simp only: in_flight_then_synthesis)
    with e have "in_flight evs 0 \<le> 1" by simp
    with True e show ?thesis by (simp add: process_farmer_request_def)
  next
    case False
    obtain r evs where e: "execute_generic_pipeline env (ra_query ra) (ra_profile ra) = (r, evs)"
      by (cases "execute_generic_pipeline env (ra_query ra) (ra_profile ra)")
    from execute_generic_pipeline_events [of env "ra_query ra" "ra_profile ra"]
      in_flight_then_synthesis [of _ known_agents True]
    have "in_flight (snd (execute_generic_pipeline env (ra_query ra) (ra_profile ra))) 0 \<le> 1"
      by (simp only: if_True)
    with e have "in_flight evs 0 \<le> 1" by simp
    with False e show ?thesis by (simp add: process_farmer_request_def)
  qed
  then show ?thesis
    using execute_specific_pipeline_events execute_generic_pipeline_events by blast
qed

theorem specialists_called_in_sequence_witness:
  "snd (execute_specific_pipeline one_down_env (ra_query rain_and_pests)
          (ra_profile rain_and_pests) (ra_decision rain_and_pests)) =
     [Called ''weather'', Returned ''weather'', Called ''pest'', Returned ''pest'',
      SynthesisBegan]"
  using specialists_called_in_sequence
    [of one_down_env rain_and_pests "ra_query rain_and_pests" "ra_profile rain_and_pests"
        "ra_decision rain_and_pests"]
  by (simp add: one_down_env_def rain_and_pests_def known_agents_def)

text \<open>
  The claim as stated fails: with the weather and the pest specialist both listed, the
  pest specialist is called only after the weather specialist has returned, and one call
  at most is in flight.
\<close>

theorem two_specialists_not_concurrent:
  "snd (process_farmer_request one_down_env rain_and_pests) =
     [Called ''weather'', Returned ''weather'', Called ''pest'', Returned ''pest'',
      SynthesisBegan] \<and>
   in_flight (snd (process_farmer_request one_down_env rain_and_pests)) 0 = 1"
  by (simp add: process_farmer_request_def execute_specific_pipeline_def one_down_env_def
      rain_and_pests_def known_agents_def)

lemma call_required_agents_responses:
  assumes "\<forall>n\<in>set ns. n \<in> set known_agents \<longrightarrow> specialist env n q ''specific'' \<noteq> AgentRaised"
    and "n \<in> set ns" and "n \<in> set known_agents"
    and "specialist env n q ''specific'' = AgentReturned r"
  shows "map_of (agent_responses (snd (call_required_agents env q ns st))) n = Some r"
proof -
  have keep: "map_of (agent_responses (snd (call_required_agents env q ms st))) n = Some r"
    if "map_of (agent_responses st) n = Some r" for ms st
    using that
  proof (induction ms arbitrary: st)
    case Nil
    then show ?case by simp
  next
    case (Cons m ms)
    show ?case
    proof (cases "m \<in> set known_agents")
      case False
      with Cons show ?thesis by simp
    next
      case True
      show ?thesis
      proof (cases "specialist env m q ''specific''")
        case AgentRaised
        with True Cons.prems show ?thesis by simp
      next
        case (AgentReturned r')
        have "map_of (dict_set m r' (agent_responses st)) n = Some r"
        proof (cases "m = n")
          case True
          with AgentReturned assms(4) show ?thesis by (simp add: map_of_dict_set)
        next
          case False
          with Cons.prems show ?thesis by (simp add: map_of_dict_set)
        qed
        with True AgentReturned Cons.IH show ?thesis by simp
      qed
    qed
  qed
  from assms(1,2) show ?thesis
  proof (induction ns arbitrary: st)
    case Nil
    then show ?case by simp
  next
    case (Cons m ms)
    show ?case
    proof (cases "m \<in> set known_agents")
      case False
      with Cons assms(3) show ?thesis by auto
    next
      case True
      with Cons.prems(1) obtain r' where r': "specialist env m q ''specific'' = AgentReturned r'"
        by (cases "specialist env m q ''specific''") auto
      show ?thesis
      proof (cases "m = n")
        case same: True
        with r' assms(4) have "r' = r" by simp
        with True r' same show ?thesis by (simp add: keep map_of_dict_set)
      next
        case False
        with Cons.prems(2) have "n \<in> set ms" by simp
        moreover from Cons.prems(1) have
          "\<forall>n\<in>set ms. n \<in> set known_agents \<longrightarrow> specialist env n q ''specific'' \<noteq> AgentRaised"
          by simp
        ultimately show ?thesis using True r' Cons.IH by simp
      qed
    qed
  qed
qed

lemma dict_set_no_success:
  assumes "resp_status r \<noteq> Some ''success''"
    and "\<forall>(k, v)\<in>set al. resp_status v \<noteq> Some ''success''"
  shows "\<forall>(k, v)\<in>set (dict_set m r al). resp_status v \<noteq> Some ''success''"
  using assms by (induction al) (auto split: if_splits)

lemma no_success_no_summary:
  assumes "\<forall>n\<in>set ns. n \<in> set known_agents \<longrightarrow>
             (\<forall>r. specialist env n q ''specific'' = AgentReturned r \<longrightarrow>
                  resp_status r \<noteq> Some ''success'')"
    and "\<forall>(k, v)\<in>set (agent_responses st). resp_status v \<noteq> Some ''success''"
  shows "\<forall>(k, v)\<in>set (agent_responses (snd (call_required_agents env q ns st))).
           resp_status v \<noteq> Some ''success''"
  using assms
proof (induction ns arbitrary: st)
  case Nil
  then show ?case by simp
next
  case (Cons m ms)
  from Cons.prems(1) have rest:
    "\<forall>n\<in>set ms. n \<in> set known_agents \<longrightarrow>
       (\<forall>r. specialist env n q ''specific'' = AgentReturned r \<longrightarrow>
            resp_status r \<noteq> Some ''success'')"
    by simp
  show ?case
  proof (cases "m \<in> set known_agents")
    case False
    with Cons.IH [OF rest Cons.prems(2)] show ?thesis by simp
  next
    case True
    show ?thesis
    proof (cases "specialist env m q ''specific''")
      case AgentRaised
      with True Cons.prems(2) show ?thesis by simp
    next
      case (AgentReturned r')
      with True Cons.prems(1) have bad: "resp_status r' \<noteq> Some ''success''" by simp
      let ?st' = "st\<lparr>agent_responses := dict_set m r' (agent_responses st),
                     agents_used := agents_used st @ [m],
                     events := events st @ [Called m, Returned m]\<rparr>"
      from dict_set_no_success [OF bad Cons.prems(2)] have
        "\<forall>(k, v)\<in>set (agent_responses ?st'). resp_status v \<noteq> Some ''success''"
        by simp
      from Cons.IH [OF rest this] True AgentReturned show ?thesis by simp
    qed
  qed
qed

lemma no_summaries:
  assumes "\<forall>(k, v)\<in>set al. resp_status v \<noteq> Some ''success''"
  shows "concat (concat (map agent_summary al)) = []"
  using assms by (induction al) (auto simp add: agent_summary_def)

lemma gather_all_returned:
  assumes "\<forall>n\<in>set known_agents.
             specialist env n (generic_question n) ''generic'' = AgentReturned (g n)"
  shows "fst (gather_comprehensive_intelligence env) =
           Intelligence [(''weather'', g ''weather''), (''soil'', g ''soil''),
                         (''pest'', g ''pest''), (''scheme'', g ''scheme'')]"
  using assms by (simp add: gather_comprehensive_intelligence_def known_agents_def)

lemma execute_specific_pipeline_raised:
  assumes "\<not> (\<forall>n\<in>set (required_agents d).
             n \<in> set known_agents \<longrightarrow> specialist env n q ''specific'' \<noteq> AgentRaised)"
  shows "pr_status (fst (execute_specific_pipeline env q p d)) = ''error'' \<and>
         pr_agent_responses (fst (execute_specific_pipeline env q p d)) = [] \<and>
         pr_farmer_response (fst (execute_specific_pipeline env q p d)) = None"
proof -
  let ?st0 = "\<lparr>agent_responses = [], agents_used = [], events = []\<rparr>"
  obtain ok st where run: "call_required_agents env q (required_agents d) ?st0 = (ok, st)"
    by (cases "call_required_agents env q (required_agents d) ?st0")
  from run assms call_required_agents_ok [of env q "required_agents d" ?st0]
  have "\<not> ok" by simp
  with run have run': "call_required_agents env q (required_agents d) ?st0 = (False, st)"
    by simp
  show ?thesis unfolding execute_specific_pipeline_def run' by simp
qed

lemma execute_generic_pipeline_response:
  "fst (execute_generic_pipeline env q p) =
     \<lparr>pr_status = ''success'', pr_pipeline_type = ''generic'', pr_farmer_response = None,
      pr_synthesis_quality = None,
      pr_agents_used = [''weather'', ''soil'', ''pest'', ''scheme''],
      pr_agent_responses = [],
      pr_agent_intelligence = Some (fst (gather_comprehensive_intelligence env)),
      pr_comprehensive_strategy =
        Some (generate_comprehensive_strategy env q p (fst (gather_comprehensive_intelligence env))),
      pr_actionable_roadmap =
        Some (create_actionable_roadmap (fst (gather_comprehensive_intelligence env))),
      pr_hyperlocal_guidance =
        Some (generate_hyperlocal_guidance p (fst (gather_comprehensive_intelligence env))),
      pr_message = None\<rparr>"
  by (cases "gather_comprehensive_intelligence env") (simp add: execute_generic_pipeline_def)

lemma generic_reply:
  assumes "pipeline_type (ra_decision ra) \<noteq> ''specific''"
  shows "fst (process_farmer_request env ra) =
     (if response_serialisable (fst (execute_generic_pipeline env (ra_query ra) (ra_profile ra)))
      then strip (call_text_llm env
                    (ConversionPrompt (build_farmer_context (ra_profile ra)) (ra_query ra)
                       (fst (execute_generic_pipeline env (ra_query ra) (ra_profile ra)))))
      else str (''We have prepared a detailed strategy for you. Please contact our '' @
                ''support for more details. Strategy includes: '') @
           strategy_keys (generate_comprehensive_strategy env (ra_query ra) (ra_profile ra)
                            (fst (gather_comprehensive_intelligence env))))"
proof -
  obtain resp evs where
    e: "execute_generic_pipeline env (ra_query ra) (ra_profile ra) = (resp, evs)"
    by (cases "execute_generic_pipeline env (ra_query ra) (ra_profile ra)")
  with execute_generic_pipeline_response [of env "ra_query ra" "ra_profile ra"]
  have r: "pr_farmer_response resp = None"
    "pr_comprehensive_strategy resp =
       Some (generate_comprehensive_strategy env (ra_query ra) (ra_profile ra)
               (fst (gather_comprehensive_intelligence env)))"
    by simp_all
  from assms e r show ?thesis
    by (simp add: process_farmer_request_def convert_json_to_english_def)
qed
section \<open>Properties of response delivery\<close>

lemma lower_str_hi: "lower_str ''hi'' = ''hi''"
  by code_simp

lemma extract_ignores_language:
  "extract_translated_text (data\<lparr>td_language := l\<rparr>) = extract_translated_text data"
  by (simp add: extract_translated_text_def Let_def)

lemma process_with_orchestrator_ignores_read:
  "process_with_orchestrator m (ev\<lparr>te_read := x\<rparr>) t f = process_with_orchestrator m ev t f"
  by (cases "te_orchestrator ev t") (simp_all add: process_with_orchestrator_def Let_def)

lemma generate_audio_response_ignores_read:
  "generate_audio_response m (ev\<lparr>te_read := x\<rparr>) r f = generate_audio_response m ev r f"
  by (cases "te_processor ev") (simp_all add: generate_audio_response_def)

lemma generate_multilingual_audio_hi:
  "\<exists>spoken sent.
     generate_multilingual_audio tr tts t ''hi'' =
       (spoken, TranslateRequest t ''en'' ''hi'' # map (\<lambda>chunk. TtsRequest chunk ''hi'') sent)"
proof (cases "success (fst (translate_text tr t ''en'' ''hi''))")
  case False
  then have "generate_multilingual_audio tr tts t ''hi'' =
               (None, TranslateRequest t ''en'' ''hi'' # map (\<lambda>chunk. TtsRequest chunk ''hi'') [])"
    by (simp add: generate_multilingual_audio_def translate_to_language_def lower_str_hi Let_def)
  then show ?thesis by blast
next
  case True
  obtain produced sent where
    tts: "text_to_speech tts (translated_text (fst (translate_text tr t ''en'' ''hi'')))
            = (produced, sent)"
    by (cases "text_to_speech tts (translated_text (fst (translate_text tr t ''en'' ''hi'')))")
  with True have "generate_multilingual_audio tr tts t ''hi'' =
      (if produced then Some (translated_text (fst (translate_text tr t ''en'' ''hi''))) else None,
       TranslateRequest t ''en'' ''hi'' # map (\<lambda>chunk. TtsRequest chunk ''hi'') sent)"
    by (simp add: generate_multilingual_audio_def translate_to_language_def lower_str_hi Let_def)
  then show ?thesis by blast
qed

lemma generate_audio_response_events:
  "\<exists>evs. delivered (generate_audio_response m ev r f) = delivered m @ evs \<and>
         (\<forall>e\<in>set evs. case e of TranslateRequest t s g \<Rightarrow> s = ''en'' \<and> g = ''hi''
                                | TtsRequest t l \<Rightarrow> l = ''hi'') \<and>
         (evs = [] \<or> (\<exists>rest. evs = TranslateRequest r ''en'' ''hi'' # rest))"
proof (cases "te_processor ev")
  case None
  then have "delivered (generate_audio_response m ev r f) = delivered m @ []"
    by (simp add: generate_audio_response_def)
  then show ?thesis by (intro exI [of _ "[]"]) simp
next
  case (Some pr)
  obtain tr tts where pr: "pr = (tr, tts)" by (cases pr)
  let ?hindi = "if success (fst (translate_text tr r ''en'' ''hi''))
                then translated_text (fst (translate_text tr r ''en'' ''hi'')) else r"
  from generate_multilingual_audio_hi [of tr tts ?hindi] obtain spoken sent where
    g: "generate_multilingual_audio tr tts ?hindi ''hi'' =
          (spoken, TranslateRequest ?hindi ''en'' ''hi'' # map (\<lambda>chunk. TtsRequest chunk ''hi'') sent)"
    by blast
  let ?evs = "TranslateRequest r ''en'' ''hi'' # TranslateRequest ?hindi ''en'' ''hi'' #
              map (\<lambda>chunk. TtsRequest chunk ''hi'') sent"
  from Some pr g have "delivered (generate_audio_response m ev r f) = delivered m @ ?evs"
    by (cases spoken) (simp_all add: generate_audio_response_def Let_def)
  moreover have "\<forall>e\<in>set ?evs. case e of TranslateRequest t s g \<Rightarrow> s = ''en'' \<and> g = ''hi''
                                | TtsRequest t l \<Rightarrow> l = ''hi''"
    by auto
  ultimately show ?thesis by blast
qed

lemma process_transcript_file_ignores_language:
  "process_transcript_file m (ev\<lparr>te_read := Some (data\<lparr>td_language := l\<rparr>)\<rparr>) f =
   process_transcript_file m (ev\<lparr>te_read := Some data\<rparr>) f"
  by (simp add: process_transcript_file_def extract_ignores_language
      process_with_orchestrator_ignores_read generate_audio_response_ignores_read
      split: option.splits prod.splits)

text \<open>
  C8, as the code has it. Response delivery translates the reply from \<open>en\<close> to the fixed
  target \<open>hi\<close> and speaks in \<open>hi\<close>: every translation request of the stage has source
  \<open>en\<close> and target \<open>hi\<close>, every TTS input has language \<open>hi\<close>, and the first event of the
  stage is the translation of the reply, so translation precedes TTS. The transcript's
  detected source language has no influence: changing it changes nothing in what the
  monitor does.
\<close>

theorem delivery_target_is_hindi:
  "(\<exists>evs. delivered (generate_audio_response m ev r f) = delivered m @ evs \<and>
          (\<forall>e\<in>set evs. case e of TranslateRequest t s g \<Rightarrow> s = ''en'' \<and> g = ''hi''
                                 | TtsRequest t l \<Rightarrow> l = ''hi'') \<and>
          (evs = [] \<or> (\<exists>rest. evs = TranslateRequest r ''en'' ''hi'' # rest))) \<and>
   process_transcript_file m (ev\<lparr>te_read := Some (data\<lparr>td_language := l\<rparr>)\<rparr>) f =
     process_transcript_file m (ev\<lparr>te_read := Some data\<rparr>) f"
  using generate_audio_response_events [where m = m and ev = ev and r = r and f = f]
    process_transcript_file_ignores_language [where m = m and ev = ev and data = data
      and l = l and f = f]
  by blast

lemma all_down_reply:
  "fst (process_farmer_request all_down_env (rain_and_pests\<lparr>ra_query := q\<rparr>)) = advice"
  by (simp add: process_farmer_request_def execute_specific_pipeline_def all_down_env_def
      rain_and_pests_def known_agents_def synthesize_specific_responses_def
      convert_json_to_english_def)

lemma advice_not_error:
  "\<not> startswith advice (str ''Error:'') \<and> \<not> contains (ascii_lower advice) (str ''error'') \<and>
   \<not> contains (ascii_lower advice) (str ''failed'') \<and> \<not> length (strip advice) < 10 \<and>
   advice \<noteq> [] \<and> \<not> is_error_response ascii_lower advice"
  by code_simp

lemma hindi_translation:
  "strip t \<noteq> [] \<Longrightarrow> length t \<le> 10000 \<Longrightarrow>
   fst (translate_text hindi_translator t ''en'' ''hi'') =
     \<lparr>translated_text = [2344, 2350, 2360, 2381, 2340, 2375], source_language = ''en'',
      target_language = ''hi'', success = True, service = Some ''google_cloud'',
      fallback = False, error = None\<rparr>"
  by (simp add: translate_text_def hindi_translator_def translation_services_def
      split_text_into_chunks_def)

lemma namaste_spoken:
  "text_to_speech \<lparr>tts_client = (\<lambda>t. True), tts_files_ok = True\<rparr>
     [2344, 2350, 2360, 2381, 2340, 2375] = (True, [[2344, 2350, 2360, 2381, 2340, 2375]])"
  by (simp add: text_to_speech_def chunk_text_for_tts_def encode_len_def utf8_len_def)

lemma all_down_run:
  assumes x: "extract_translated_text data =
                Some (str ''Will it rain and what are these white insects?'')"
  shows "process_transcript_file (TranscriptMonitor_init {} True)
           (all_down_event\<lparr>te_read := Some data\<rparr>) ''a001_transcript.json''
     = \<lparr>processed = {''a001_transcript.json''}, processed_log = {''a001_transcript.json''},
        responses = [''a001_response.json'' \<mapsto> advice],
        playback = {''a001_response.wav''},
        orchestrated = [str ''Will it rain and what are these white insects?''],
        delivered = [TranslateRequest advice ''en'' ''hi'',
                     TranslateRequest [2344, 2350, 2360, 2381, 2340, 2375] ''en'' ''hi'',
                     TtsRequest [2344, 2350, 2360, 2381, 2340, 2375] ''hi'']\<rparr>"
proof -
  let ?ev = "all_down_event\<lparr>te_read := Some data\<rparr>"
  have q: "str ''Will it rain and what are these white insects?'' \<noteq> []"
    by (simp add: str_def)
  have r: "replace ''a001_transcript.json'' ''_transcript.json'' [] = ''a001''"
    by code_simp
  have s1: "strip advice \<noteq> []" by code_simp
  have s2: "strip [2344, 2350, 2360, 2381, 2340, 2375] \<noteq> []" by code_simp
  have l1: "length advice \<le> 10000" by (simp add: advice_def str_def)
  have l2: "length [2344, 2350, 2360, 2381, 2340, 2375::nat] \<le> 10000" by simp
  have "process_with_orchestrator (TranscriptMonitor_init {} True) all_down_event
             (str ''Will it rain and what are these white insects?'') ''a001_transcript.json''
           = (Some advice,
              (TranscriptMonitor_init {} True)
                \<lparr>orchestrated := [str ''Will it rain and what are these white insects?''],
                 responses := [''a001_response.json'' \<mapsto> advice]\<rparr>)"
    using advice_not_error
    by (simp add: process_with_orchestrator_def all_down_event_def all_down_reply
        save_response_def r TranscriptMonitor_init_def)
  then have o: "process_with_orchestrator (TranscriptMonitor_init {} True) ?ev
             (str ''Will it rain and what are these white insects?'') ''a001_transcript.json''
           = (Some advice,
              (TranscriptMonitor_init {} True)
                \<lparr>orchestrated := [str ''Will it rain and what are these white insects?''],
                 responses := [''a001_response.json'' \<mapsto> advice]\<rparr>)"
    by (simp only: process_with_orchestrator_ignores_read)
  have "generate_audio_response m all_down_event advice ''a001_transcript.json'' =
             m\<lparr>delivered := delivered m @
                   [TranslateRequest advice ''en'' ''hi'',
                    TranslateRequest [2344, 2350, 2360, 2381, 2340, 2375] ''en'' ''hi'',
                    TtsRequest [2344, 2350, 2360, 2381, 2340, 2375] ''hi''],
               playback := insert ''a001_response.wav'' (playback m)\<rparr>" for m
    by (simp add: generate_audio_response_def all_down_event_def
        generate_multilingual_audio_def translate_to_language_def lower_str_hi
        hindi_translation [OF s1 l1] hindi_translation [OF s2 l2] namaste_spoken r Let_def)
  then have g: "generate_audio_response m ?ev advice ''a001_transcript.json'' =
             m\<lparr>delivered := delivered m @
                   [TranslateRequest advice ''en'' ''hi'',
                    TranslateRequest [2344, 2350, 2360, 2381, 2340, 2375] ''en'' ''hi'',
                    TtsRequest [2344, 2350, 2360, 2381, 2340, 2375] ''hi''],
               playback := insert ''a001_response.wav'' (playback m)\<rparr>" for m
    by (simp only: generate_audio_response_ignores_read)
  have te: "te_read ?ev = Some data" "te_log_write_ok ?ev" "te_lower ?ev = ascii_lower"
    by (simp_all add: all_down_event_def)
  have fresh: "''a001_transcript.json'' \<notin> processed (TranscriptMonitor_init {} True)"
    by (simp add: TranscriptMonitor_init_def)
  have "process_transcript_file (TranscriptMonitor_init {} True) ?ev
          ''a001_transcript.json'' =
        save_processed_log
          ((generate_audio_response
              ((TranscriptMonitor_init {} True)
                 \<lparr>orchestrated := [str ''Will it rain and what are these white insects?''],
                  responses := [''a001_response.json'' \<mapsto> advice]\<rparr>)
              ?ev advice ''a001_transcript.json'')
             \<lparr>processed := insert ''a001_transcript.json''
                (processed (generate_audio_response
                   ((TranscriptMonitor_init {} True)
                      \<lparr>orchestrated := [str ''Will it rain and what are these white insects?''],
                       responses := [''a001_response.json'' \<mapsto> advice]\<rparr>)
                   ?ev advice ''a001_transcript.json''))\<rparr>) True"
    using advice_not_error fresh
    by (simp add: process_transcript_file_def te x q o Let_def)
  then show ?thesis
    by (simp add: g save_processed_log_def TranscriptMonitor_init_def)
qed

lemma all_down_event_run:
  "process_transcript_file (TranscriptMonitor_init {} True) all_down_event ''a001_transcript.json''
     = \<lparr>processed = {''a001_transcript.json''}, processed_log = {''a001_transcript.json''},
        responses = [''a001_response.json'' \<mapsto> advice],
        playback = {''a001_response.wav''},
        orchestrated = [str ''Will it rain and what are these white insects?''],
        delivered = [TranslateRequest advice ''en'' ''hi'',
                     TranslateRequest [2344, 2350, 2360, 2381, 2340, 2375] ''en'' ''hi'',
                     TtsRequest [2344, 2350, 2360, 2381, 2340, 2375] ''hi'']\<rparr>"
proof -
  have x: "extract_translated_text tamil_transcript =
             Some (str ''Will it rain and what are these white insects?'')"
    by code_simp
  have e: "all_down_event\<lparr>te_read := Some tamil_transcript\<rparr> = all_down_event"
    by (simp add: all_down_event_def)
  from all_down_run [OF x] show ?thesis by (simp only: e)
qed

theorem delivery_target_is_hindi_witness:
  "process_transcript_file (TranscriptMonitor_init {} True)
     (all_down_event\<lparr>te_read := Some (tamil_transcript\<lparr>td_language := ''hi''\<rparr>)\<rparr>)
     ''a001_transcript.json'' =
   process_transcript_file (TranscriptMonitor_init {} True)
     (all_down_event\<lparr>te_read := Some tamil_transcript\<rparr>) ''a001_transcript.json''"
  using delivery_target_is_hindi
    [where m = "TranscriptMonitor_init {} True" and ev = all_down_event and r = advice
       and f = "''a001_transcript.json''" and data = tamil_transcript and l = "''hi''"]
  by simp

text \<open>
  The claim as stated fails: the transcript's detected source language is Tamil
  (\<open>ta\<close>), and the reply is translated to, and spoken in, Hindi (\<open>hi\<close>).
\<close>

theorem tamil_caller_answered_in_hindi:
  "td_language tamil_transcript = ''ta'' \<and>
   te_read all_down_event = Some tamil_transcript \<and>
   delivered (process_transcript_file (TranscriptMonitor_init {} True) all_down_event
                ''a001_transcript.json'') =
     [TranslateRequest advice ''en'' ''hi'',
      TranslateRequest [2344, 2350, 2360, 2381, 2340, 2375] ''en'' ''hi'',
      TtsRequest [2344, 2350, 2360, 2381, 2340, 2375] ''hi'']"
  by (simp add: all_down_event_run) (simp add: tamil_transcript_def all_down_event_def)

text \<open>
  C9, as the code has it. For every text and every language code \<open>L\<close>,
  \<open>translate_text(text, L, L)\<close> returns the text unchanged with \<open>success\<close> true and
  service \<open>no_translation_needed\<close>, and calls no provider. So where the code passed as
  source is the target, the translated text is the input, code point for code point
  (hence byte for byte): with target \<open>en\<close> a reply in the pivot language is passed on
  unchanged by \<open>translate_to_language\<close>, and \<open>generate_multilingual_audio\<close> speaks the
  reply itself. The detected source language of the transcript is not what is passed:
  with target \<open>hi\<close> the source passed is \<open>en\<close>, and the text spoken is the translation
  of the reply (nothing is spoken when the translation fails); the monitor delivers
  every reply with source \<open>en\<close> and target \<open>hi\<close>, and the detected language of the
  transcript changes nothing in what it does.
\<close>

theorem translate_text_same_language:
  "translate_text tr t L L =
     (\<lparr>translated_text = t, source_language = L, target_language = L, success = True,
       service = Some ''no_translation_needed'', fallback = False, error = None\<rparr>, []) \<and>
   translated_text (fst (translate_text tr t L L)) = t \<and>
   snd (translate_text tr t L L) = [] \<and>
   translate_to_language tr t ''en'' = ((t, True), []) \<and>
   generate_multilingual_audio tr tts t ''en'' =
     (if fst (text_to_speech tts t) then Some t else None,
      map (\<lambda>chunk. TtsRequest chunk ''en'') (snd (text_to_speech tts t))) \<and>
   generate_multilingual_audio tr tts t ''hi'' =
     (if success (fst (translate_text tr t ''en'' ''hi'')) then
        (if fst (text_to_speech tts (translated_text (fst (translate_text tr t ''en'' ''hi''))))
         then Some (translated_text (fst (translate_text tr t ''en'' ''hi''))) else None,
         TranslateRequest t ''en'' ''hi'' #
         map (\<lambda>chunk. TtsRequest chunk ''hi'')
           (snd (text_to_speech tts (translated_text (fst (translate_text tr t ''en'' ''hi''))))))
      else (None, [TranslateRequest t ''en'' ''hi''])) \<and>
   delivered (generate_audio_response m ev r f) =
     (case te_processor ev of
        None \<Rightarrow> delivered m
      | Some (tr', tts') \<Rightarrow>
          delivered m @ TranslateRequest r ''en'' ''hi'' #
          snd (generate_multilingual_audio tr' tts'
                 (if success (fst (translate_text tr' r ''en'' ''hi''))
                  then translated_text (fst (translate_text tr' r ''en'' ''hi'')) else r)
                 ''hi'')) \<and>
   process_transcript_file m (ev\<lparr>te_read := Some (data\<lparr>td_language := L\<rparr>)\<rparr>) f =
     process_transcript_file m (ev\<lparr>te_read := Some data\<rparr>) f"
proof -
  have en: "lower_str ''en'' = ''en''" by code_simp
  have a: "generate_multilingual_audio tr tts t ''en'' =
     (if fst (text_to_speech tts t) then Some t else None,
      map (\<lambda>chunk. TtsRequest chunk ''en'') (snd (text_to_speech tts t)))"
    by (cases "text_to_speech tts t") (simp add: generate_multilingual_audio_def en)
  have b: "generate_multilingual_audio tr tts t ''hi'' =
     (if success (fst (translate_text tr t ''en'' ''hi'')) then
        (if fst (text_to_speech tts (translated_text (fst (translate_text tr t ''en'' ''hi''))))
         then Some (translated_text (fst (translate_text tr t ''en'' ''hi''))) else None,
         TranslateRequest t ''en'' ''hi'' #
         map (\<lambda>chunk. TtsRequest chunk ''hi'')
           (snd (text_to_speech tts (translated_text (fst (translate_text tr t ''en'' ''hi''))))))
      else (None, [TranslateRequest t ''en'' ''hi'']))"
    by (cases "text_to_speech tts (translated_text (fst (translate_text tr t ''en'' ''hi'')))")
       (simp add: generate_multilingual_audio_def translate_to_language_def lower_str_hi Let_def)
  have c: "translate_text tr t L L =
     (\<lparr>translated_text = t, source_language = L, target_language = L, success = True,
       service = Some ''no_translation_needed'', fallback = False, error = None\<rparr>, [])"
    by (simp add: translate_text_def)
  have d: "translate_to_language tr t ''en'' = ((t, True), [])"
    by (simp add: translate_to_language_def en)
  have e: "delivered (generate_audio_response m ev r f) =
     (case te_processor ev of
        None \<Rightarrow> delivered m
      | Some (tr', tts') \<Rightarrow>
          delivered m @ TranslateRequest r ''en'' ''hi'' #
          snd (generate_multilingual_audio tr' tts'
                 (if success (fst (translate_text tr' r ''en'' ''hi''))
                  then translated_text (fst (translate_text tr' r ''en'' ''hi'')) else r)
                 ''hi''))"
    by (auto simp add: generate_audio_response_def Let_def split: option.splits prod.splits)
  note g = process_transcript_file_ignores_language
    [where m = m and ev = ev and data = data and l = L and f = f]
  from a b c d e g show ?thesis by simp
qed

theorem translate_text_same_language_witness:
  "translated_text (fst (translate_text offline_translator (str ''Water the crop'') ''en'' ''en''))
     = str ''Water the crop'' \<and>
   success (fst (translate_text offline_translator (str ''Water the crop'') ''en'' ''en''))"
  using translate_text_same_language
    [where tr = offline_translator and t = "str ''Water the crop''" and L = "''en''"]
  by simp

text \<open>
  The second half of C9 as stated fails: the caller's detected language is Hindi, the
  language of the reply audio, and what is translated and spoken is not the
  orchestrator's reply but the provider's translation of it.
\<close>

theorem hindi_caller_hears_translation:
  "td_language hindi_transcript = ''hi'' \<and>
   te_read hindi_caller_event = Some hindi_transcript \<and>
   responses (process_transcript_file (TranscriptMonitor_init {} True) hindi_caller_event
                ''a001_transcript.json'') ''a001_response.json'' = Some advice \<and>
   delivered (process_transcript_file (TranscriptMonitor_init {} True) hindi_caller_event
                ''a001_transcript.json'') =
     [TranslateRequest advice ''en'' ''hi'',
      TranslateRequest [2344, 2350, 2360, 2381, 2340, 2375] ''en'' ''hi'',
      TtsRequest [2344, 2350, 2360, 2381, 2340, 2375] ''hi''] \<and>
   [2344, 2350, 2360, 2381, 2340, 2375] \<noteq> advice"
proof -
  have x: "extract_translated_text hindi_transcript =
             Some (str ''Will it rain and what are these white insects?'')"
    by code_simp
  have n: "[2344, 2350, 2360, 2381, 2340, 2375] \<noteq> advice"
    by (simp add: advice_def str_def)
  from all_down_run [OF x] n show ?thesis
    by (simp add: hindi_caller_event_def) (simp add: hindi_transcript_def)
qed

subsection \<open>The processed set of the transcript monitor\<close>








lemma generate_audio_response_responses:
  "responses (generate_audio_response m ev r f) = responses m"
  by (cases "te_processor ev")
     (auto simp add: generate_audio_response_def Let_def split: prod.splits option.splits)

lemma process_transcript_file_response:
  assumes "f \<notin> processed m" and "te_read ev = Some data"
    and "extract_translated_text data = Some t" and "t \<noteq> []"
    and "te_orchestrator ev t = Reply r"
  shows "responses (process_transcript_file m ev f) =
           (if startswith r (str ''Error:'') \<or> contains (te_lower ev r) (str ''error'') \<or>
               contains (te_lower ev r) (str ''failed'') \<or> length (strip r) < 10 \<or>
               \<not> te_response_write_ok ev
            then responses m
            else (responses m)(replace f ''_transcript.json'' [] @ ''_response.json'' \<mapsto> r))"
  using assms
  by (simp add: process_transcript_file_def process_with_orchestrator_def Let_def
      save_processed_log_def save_response_def generate_audio_response_responses)

section \<open>Failed specialists, from the orchestrator to the response file\<close>

text \<open>
  C1, as the code has it. In the specific pipeline, when every listed specialist returns
  (with whatever status), the response of each listed specialist is recorded under its
  name, a failed one like any other, and the pipeline ends with status \<open>success\<close>; when
  then none of the listed specialists returned status \<open>success\<close>, synthesis still runs,
  with no agent summary in its prompt, and \<open>process_farmer_request\<close> returns what the
  language model answered. A listed specialist that raises ends the pipeline with status
  \<open>error\<close> and no recorded response. In the generic pipeline, when the four specialists
  return, the four responses are gathered under their names; the pipeline ends with
  status \<open>success\<close> whatever the specialists did, and \<open>process_farmer_request\<close> returns
  the language model's rewriting of the response (the fixed text naming the strategy's
  keys when the response cannot be serialised). There is no error for "all agents
  failed". The transcript monitor, given the reply of \<open>process_farmer_request\<close> for a
  transcript it has not processed, writes the response file with that reply exactly
  when the reply passes the error heuristics of \<open>_process_with_orchestrator\<close> and the
  file can be written, and otherwise leaves the response files as they were.
\<close>

theorem failed_findings_recorded:
  "((pipeline_type (ra_decision ra) = ''specific'' \<and>
     (\<forall>n\<in>set (required_agents (ra_decision ra)).
        n \<in> set known_agents \<longrightarrow> specialist env n (ra_query ra) ''specific'' \<noteq> AgentRaised)) \<longrightarrow>
      pr_status (fst (execute_specific_pipeline env (ra_query ra) (ra_profile ra)
                        (ra_decision ra))) = ''success'' \<and>
      (\<forall>n r. n \<in> set (required_agents (ra_decision ra)) \<and> n \<in> set known_agents \<and>
              specialist env n (ra_query ra) ''specific'' = AgentReturned r \<longrightarrow>
              map_of (pr_agent_responses
                        (fst (execute_specific_pipeline env (ra_query ra) (ra_profile ra)
                                (ra_decision ra)))) n = Some r) \<and>
      ((\<forall>n\<in>set (required_agents (ra_decision ra)).
          n \<in> set known_agents \<longrightarrow>
          (\<forall>r. specialist env n (ra_query ra) ''specific'' = AgentReturned r \<longrightarrow>
               resp_status r \<noteq> Some ''success'')) \<longrightarrow>
         fst (process_farmer_request env ra) =
           call_text_llm env
             (SynthesisPrompt (build_farmer_context (ra_profile ra)) (ra_query ra) []))) \<and>
   (\<not> (\<forall>n\<in>set (required_agents (ra_decision ra)).
         n \<in> set known_agents \<longrightarrow> specialist env n (ra_query ra) ''specific'' \<noteq> AgentRaised) \<longrightarrow>
      pr_status (fst (execute_specific_pipeline env (ra_query ra) (ra_profile ra)
                        (ra_decision ra))) = ''error'' \<and>
      pr_agent_responses (fst (execute_specific_pipeline env (ra_query ra) (ra_profile ra)
                                 (ra_decision ra))) = []) \<and>
   ((\<forall>n\<in>set known_agents.
        specialist env n (generic_question n) ''generic'' = AgentReturned (g n)) \<longrightarrow>
      fst (gather_comprehensive_intelligence env) =
        Intelligence [(''weather'', g ''weather''), (''soil'', g ''soil''),
                      (''pest'', g ''pest''), (''scheme'', g ''scheme'')]) \<and>
   pr_status (fst (execute_generic_pipeline env (ra_query ra) (ra_profile ra))) = ''success'' \<and>
   (pipeline_type (ra_decision ra) \<noteq> ''specific'' \<longrightarrow>
      fst (process_farmer_request env ra) =
        (if response_serialisable
              (fst (execute_generic_pipeline env (ra_query ra) (ra_profile ra)))
         then strip (call_text_llm env
                       (ConversionPrompt (build_farmer_context (ra_profile ra)) (ra_query ra)
                          (fst (execute_generic_pipeline env (ra_query ra) (ra_profile ra)))))
         else str (''We have prepared a detailed strategy for you. Please contact our '' @
                   ''support for more details. Strategy includes: '') @
              strategy_keys (generate_comprehensive_strategy env (ra_query ra) (ra_profile ra)
                               (fst (gather_comprehensive_intelligence env))))) \<and>
   (f \<notin> processed m \<and> te_read ev = Some data \<and> extract_translated_text data = Some t \<and>
    t \<noteq> [] \<and> te_orchestrator ev t = Reply (fst (process_farmer_request env ra)) \<longrightarrow>
      responses (process_transcript_file m ev f) =
        (if startswith (fst (process_farmer_request env ra)) (str ''Error:'') \<or>
            contains (te_lower ev (fst (process_farmer_request env ra))) (str ''error'') \<or>
            contains (te_lower ev (fst (process_farmer_request env ra))) (str ''failed'') \<or>
            length (strip (fst (process_farmer_request env ra))) < 10 \<or>
            \<not> te_response_write_ok ev
         then responses m
         else (responses m)(replace f ''_transcript.json'' [] @ ''_response.json''
                 \<mapsto> fst (process_farmer_request env ra))))"
proof -
  let ?st0 = "\<lparr>agent_responses = [], agents_used = [], events = []\<rparr>"
  let ?q = "ra_query ra" and ?ns = "required_agents (ra_decision ra)"
  let ?exec = "fst (execute_specific_pipeline env ?q (ra_profile ra) (ra_decision ra))"
  have spec:
    "pr_status ?exec = ''success'' \<and>
     (\<forall>n r. n \<in> set ?ns \<and> n \<in> set known_agents \<and>
             specialist env n ?q ''specific'' = AgentReturned r \<longrightarrow>
             map_of (pr_agent_responses ?exec) n = Some r) \<and>
     ((\<forall>n\<in>set ?ns. n \<in> set known_agents \<longrightarrow>
          (\<forall>r. specialist env n ?q ''specific'' = AgentReturned r \<longrightarrow>
               resp_status r \<noteq> Some ''success'')) \<longrightarrow>
        fst (process_farmer_request env ra) =
          call_text_llm env (SynthesisPrompt (build_farmer_context (ra_profile ra)) ?q []))"
    if sp: "pipeline_type (ra_decision ra) = ''specific''"
      and ret: "\<forall>n\<in>set ?ns. n \<in> set known_agents \<longrightarrow>
                  specialist env n ?q ''specific'' \<noteq> AgentRaised"
  proof -
    obtain ok st where run: "call_required_agents env ?q ?ns ?st0 = (ok, st)"
      by (cases "call_required_agents env ?q ?ns ?st0")
    from run ret call_required_agents_ok [of env ?q ?ns ?st0] have "ok" by simp
    with run have run': "call_required_agents env ?q ?ns ?st0 = (True, st)" by simp
    have st: "st = snd (call_required_agents env ?q ?ns ?st0)" using run by simp
    have exec: "?exec =
        \<lparr>pr_status = ''success'', pr_pipeline_type = ''specific'',
         pr_farmer_response =
           Some (synthesize_specific_responses env ?q (ra_profile ra) (agent_responses st)),
         pr_synthesis_quality = Some ''high'',
         pr_agents_used = agents_used st, pr_agent_responses = agent_responses st,
         pr_agent_intelligence = None, pr_comprehensive_strategy = None,
         pr_actionable_roadmap = None, pr_hyperlocal_guidance = None,
         pr_message = None\<rparr>"
      unfolding execute_specific_pipeline_def run' by simp
    have p1: "pr_status ?exec = ''success''"
      by (simp add: exec)
    have p2: "map_of (pr_agent_responses ?exec) n = Some r"
      if "n \<in> set ?ns \<and> n \<in> set known_agents \<and>
          specialist env n ?q ''specific'' = AgentReturned r"
      for n r
      using that call_required_agents_responses [OF ret, of n r ?st0]
      by (simp add: exec st)
    have p3: "fst (process_farmer_request env ra) =
                call_text_llm env (SynthesisPrompt (build_farmer_context (ra_profile ra)) ?q [])"
      if none: "\<forall>n\<in>set ?ns. n \<in> set known_agents \<longrightarrow>
                  (\<forall>r. specialist env n ?q ''specific'' = AgentReturned r \<longrightarrow>
                       resp_status r \<noteq> Some ''success'')"
    proof -
      have "\<forall>(k, v)\<in>set (agent_responses st). resp_status v \<noteq> Some ''success''"
        unfolding st by (rule no_success_no_summary [OF none]) simp
      then have "concat (concat (map agent_summary (agent_responses st))) = []"
        by (rule no_summaries)
      then have "synthesize_specific_responses env ?q (ra_profile ra) (agent_responses st) =
                   call_text_llm env
                     (SynthesisPrompt (build_farmer_context (ra_profile ra)) ?q [])"
        unfolding synthesize_specific_responses_def by (simp only:)
      moreover obtain resp evs where
        e: "execute_specific_pipeline env ?q (ra_profile ra) (ra_decision ra) = (resp, evs)"
        by (cases "execute_specific_pipeline env ?q (ra_profile ra) (ra_decision ra)")
      ultimately show ?thesis
        using sp exec
        by (simp add: process_farmer_request_def convert_json_to_english_def)
    qed
    from p1 p2 p3 show ?thesis by blast
  qed
  have raised: "pr_status ?exec = ''error'' \<and> pr_agent_responses ?exec = []"
    if "\<not> (\<forall>n\<in>set ?ns. n \<in> set known_agents \<longrightarrow>
               specialist env n ?q ''specific'' \<noteq> AgentRaised)"
    using execute_specific_pipeline_raised [OF that] by simp
  have gen: "pr_status (fst (execute_generic_pipeline env ?q (ra_profile ra))) = ''success''"
    by (simp add: execute_generic_pipeline_response)
  have mon: "responses (process_transcript_file m ev f) =
        (if startswith (fst (process_farmer_request env ra)) (str ''Error:'') \<or>
            contains (te_lower ev (fst (process_farmer_request env ra))) (str ''error'') \<or>
            contains (te_lower ev (fst (process_farmer_request env ra))) (str ''failed'') \<or>
            length (strip (fst (process_farmer_request env ra))) < 10 \<or>
            \<not> te_response_write_ok ev
         then responses m
         else (responses m)(replace f ''_transcript.json'' [] @ ''_response.json''
                 \<mapsto> fst (process_farmer_request env ra)))"
    if "f \<notin> processed m \<and> te_read ev = Some data \<and> extract_translated_text data = Some t \<and>
        t \<noteq> [] \<and> te_orchestrator ev t = Reply (fst (process_farmer_request env ra))"
    using that process_transcript_file_response
      [where f = f and m = m and ev = ev and data = data and t = t
         and r = "fst (process_farmer_request env ra)"]
    by blast
  from spec raised gather_all_returned [of env g] gen generic_reply [of ra env] mon
  show ?thesis by blast
qed

theorem failed_findings_recorded_witness:
  "map_of (pr_agent_responses
             (fst (execute_specific_pipeline one_down_env (ra_query rain_and_pests)
                     (ra_profile rain_and_pests) (ra_decision rain_and_pests)))) ''weather''
     = Some weather_down \<and>
   map_of (pr_agent_responses
             (fst (execute_specific_pipeline one_down_env (ra_query rain_and_pests)
                     (ra_profile rain_and_pests) (ra_decision rain_and_pests)))) ''pest''
     = Some pest_found \<and>
   fst (process_farmer_request all_down_env rain_and_pests) =
     call_text_llm all_down_env
       (SynthesisPrompt (build_farmer_context (ra_profile rain_and_pests))
          (ra_query rain_and_pests) []) \<and>
   responses (process_transcript_file (TranscriptMonitor_init {} True) all_down_event
                ''a001_transcript.json'') =
     [''a001_response.json'' \<mapsto> fst (process_farmer_request all_down_env rain_and_pests)]"
proof -
  have a: "pipeline_type (ra_decision rain_and_pests) = ''specific''"
    by (simp add: rain_and_pests_def)
  have b: "\<forall>n\<in>set (required_agents (ra_decision rain_and_pests)).
             n \<in> set known_agents \<longrightarrow>
             specialist one_down_env n (ra_query rain_and_pests) ''specific'' \<noteq> AgentRaised"
    by (simp add: one_down_env_def)
  have c: "\<forall>n\<in>set (required_agents (ra_decision rain_and_pests)).
             n \<in> set known_agents \<longrightarrow>
             specialist all_down_env n (ra_query rain_and_pests) ''specific'' \<noteq> AgentRaised"
    by (simp add: all_down_env_def)
  have w: "''weather'' \<in> set (required_agents (ra_decision rain_and_pests)) \<and>
           ''weather'' \<in> set known_agents \<and>
           specialist one_down_env ''weather'' (ra_query rain_and_pests) ''specific''
             = AgentReturned weather_down"
    by (simp add: rain_and_pests_def known_agents_def one_down_env_def)
  have p: "''pest'' \<in> set (required_agents (ra_decision rain_and_pests)) \<and>
           ''pest'' \<in> set known_agents \<and>
           specialist one_down_env ''pest'' (ra_query rain_and_pests) ''specific''
             = AgentReturned pest_found"
    by (simp add: rain_and_pests_def known_agents_def one_down_env_def)
  have none: "\<forall>n\<in>set (required_agents (ra_decision rain_and_pests)).
                n \<in> set known_agents \<longrightarrow>
                (\<forall>r. specialist all_down_env n (ra_query rain_and_pests) ''specific''
                        = AgentReturned r \<longrightarrow> resp_status r \<noteq> Some ''success'')"
    by (auto simp add: all_down_env_def weather_down_def pest_down_def)
  have x: "extract_translated_text tamil_transcript =
             Some (str ''Will it rain and what are these white insects?'')"
    by code_simp
  have same: "rain_and_pests\<lparr>ra_query := str ''Will it rain and what are these white insects?''\<rparr>
                = rain_and_pests"
    by (simp add: rain_and_pests_def)
  have reply: "fst (process_farmer_request all_down_env rain_and_pests) = advice"
    using all_down_reply [of "ra_query rain_and_pests"] by simp
  have r: "replace ''a001_transcript.json'' ''_transcript.json'' [] = ''a001''"
    by code_simp
  have mon: "''a001_transcript.json'' \<notin> processed (TranscriptMonitor_init {} True) \<and>
             te_read all_down_event = Some tamil_transcript \<and>
             extract_translated_text tamil_transcript =
               Some (str ''Will it rain and what are these white insects?'') \<and>
             str ''Will it rain and what are these white insects?'' \<noteq> [] \<and>
             te_orchestrator all_down_event
               (str ''Will it rain and what are these white insects?'') =
               Reply (fst (process_farmer_request all_down_env rain_and_pests))"
    using x same by (simp add: all_down_event_def TranscriptMonitor_init_def) (simp add: str_def)
  have ok: "\<not> (startswith (fst (process_farmer_request all_down_env rain_and_pests))
                  (str ''Error:'') \<or>
               contains (te_lower all_down_event
                           (fst (process_farmer_request all_down_env rain_and_pests)))
                  (str ''error'') \<or>
               contains (te_lower all_down_event
                           (fst (process_farmer_request all_down_env rain_and_pests)))
                  (str ''failed'') \<or>
               length (strip (fst (process_farmer_request all_down_env rain_and_pests))) < 10 \<or>
               \<not> te_response_write_ok all_down_event)"
    using advice_not_error by (simp add: reply all_down_event_def)
  have init: "responses (TranscriptMonitor_init {} True) = Map.empty"
    by (simp add: TranscriptMonitor_init_def)
  from failed_findings_recorded
    [where env = all_down_env and ra = rain_and_pests
       and m = "TranscriptMonitor_init {} True" and ev = all_down_event
       and f = "''a001_transcript.json''" and data = tamil_transcript
       and t = "str ''Will it rain and what are these white insects?''"]
    mon
  have "responses (process_transcript_file (TranscriptMonitor_init {} True) all_down_event
                     ''a001_transcript.json'') =
        (if startswith (fst (process_farmer_request all_down_env rain_and_pests))
              (str ''Error:'') \<or>
            contains (te_lower all_down_event
                        (fst (process_farmer_request all_down_env rain_and_pests)))
              (str ''error'') \<or>
            contains (te_lower all_down_event
                        (fst (process_farmer_request all_down_env rain_and_pests)))
              (str ''failed'') \<or>
            length (strip (fst (process_farmer_request all_down_env rain_and_pests))) < 10 \<or>
            \<not> te_response_write_ok all_down_event
         then responses (TranscriptMonitor_init {} True)
         else (responses (TranscriptMonitor_init {} True))
                (replace ''a001_transcript.json'' ''_transcript.json'' [] @ ''_response.json''
                   \<mapsto> fst (process_farmer_request all_down_env rain_and_pests)))"
    by blast
  with ok init r have resp:
    "responses (process_transcript_file (TranscriptMonitor_init {} True) all_down_event
                  ''a001_transcript.json'') =
     [''a001_response.json'' \<mapsto> fst (process_farmer_request all_down_env rain_and_pests)]"
    by simp
  from failed_findings_recorded [where env = one_down_env and ra = rain_and_pests] a b w p
  have one: "map_of (pr_agent_responses
             (fst (execute_specific_pipeline one_down_env (ra_query rain_and_pests)
                     (ra_profile rain_and_pests) (ra_decision rain_and_pests)))) ''weather''
     = Some weather_down \<and>
   map_of (pr_agent_responses
             (fst (execute_specific_pipeline one_down_env (ra_query rain_and_pests)
                     (ra_profile rain_and_pests) (ra_decision rain_and_pests)))) ''pest''
     = Some pest_found"
    by blast
  from failed_findings_recorded [where env = all_down_env and ra = rain_and_pests] a c none
  have two: "fst (process_farmer_request all_down_env rain_and_pests) =
     call_text_llm all_down_env
       (SynthesisPrompt (build_farmer_context (ra_profile rain_and_pests))
          (ra_query rain_and_pests) [])"
    by blast
  from one two resp show ?thesis by simp
qed

text \<open>
  The second half of C1 as stated fails: with every listed specialist failed,
  \<open>process_farmer_request\<close> returns the language model's advice, the pipeline's status is
  \<open>success\<close>, and the monitor writes the response file and the playback audio.
\<close>

theorem all_failed_still_answered:
  "fst (process_farmer_request all_down_env rain_and_pests) = advice \<and>
   pr_status (fst (execute_specific_pipeline all_down_env (ra_query rain_and_pests)
                     (ra_profile rain_and_pests) (ra_decision rain_and_pests))) = ''success'' \<and>
   map (\<lambda>(n, r). resp_success r)
     (pr_agent_responses
        (fst (execute_specific_pipeline all_down_env (ra_query rain_and_pests)
                (ra_profile rain_and_pests) (ra_decision rain_and_pests))))
     = [Some False, Some False] \<and>
   responses (process_transcript_file (TranscriptMonitor_init {} True) all_down_event
                ''a001_transcript.json'') ''a001_response.json'' = Some advice \<and>
   playback (process_transcript_file (TranscriptMonitor_init {} True) all_down_event
               ''a001_transcript.json'') = {''a001_response.wav''}"
proof -
  have "fst (process_farmer_request all_down_env rain_and_pests) = advice"
    using all_down_reply [of "ra_query rain_and_pests"] by simp
  moreover have
    "pr_status (fst (execute_specific_pipeline all_down_env (ra_query rain_and_pests)
                     (ra_profile rain_and_pests) (ra_decision rain_and_pests))) = ''success'' \<and>
     map (\<lambda>(n, r). resp_success r)
       (pr_agent_responses
          (fst (execute_specific_pipeline all_down_env (ra_query rain_and_pests)
                  (ra_profile rain_and_pests) (ra_decision rain_and_pests))))
       = [Some False, Some False]"
    by (simp add: execute_specific_pipeline_def all_down_env_def rain_and_pests_def
        known_agents_def weather_down_def pest_down_def)
  ultimately show ?thesis by (simp add: all_down_event_run)
qed

end
